theory Spec2Isabelle
  imports Main "HOL-Library.AList" "HOL-Library.Char_ord" "HOL-Library.List_Lexorder"
begin

section \<open>The collaboration server (backend/collaboration\_server.py)\<close>

text \<open>
  The server keeps one \<open>CollaborationManager\<close> with four dictionaries. The \<open>User\<close>
  objects are shared: the object stored in \<open>users\<close> under a socket id is the very object
  that sits in the \<open>participants\<close> list of every room it entered, and the manager writes
  to its fields (\<open>room_id\<close>, \<open>joined_at\<close>, \<open>role\<close>). The model therefore keeps the
  \<open>User\<close> objects in an explicit store (\<open>heap\<close>, a list indexed by reference) and lets
  the registry and the rooms hold references. A \<open>Room\<close> object is reachable through
  \<open>rooms\<close> only, so rooms are values of that map.

  Everything the code draws from its environment is an argument of the model: the
  text of \<open>datetime.now().isoformat()\<close>, of \<open>uuid.uuid4()\<close>, and the socket id.
  Python strings are byte strings in UTF-8 here; the Korean literals of the source are
  written out as their bytes.
\<close>

subsection \<open>Data model\<close>

type_synonym ref = nat

record User =
  u_id :: string
  u_name :: string
  u_email :: string
  u_socket_id :: string
  u_room_id :: "string option"
  u_is_video_enabled :: bool
  u_is_audio_enabled :: bool
  u_joined_at :: string
  u_role :: string

record Room =
  r_id :: string
  r_name :: string
  r_description :: string
  r_host_id :: string
  r_participants :: "ref list"
  r_created_at :: string
  r_max_participants :: int
  r_settings :: "(string \<times> bool) list"
  r_is_recording :: bool

record ChatMessage =
  m_id :: string
  m_room_id :: string
  m_user_id :: string
  m_user_name :: string
  m_message :: string
  m_timestamp :: string
  m_type :: string

text \<open>The \<open>room_data\<close> dictionary of \<open>create_room\<close>: each key may be absent.\<close>

record room_data =
  rd_name :: "string option"
  rd_description :: "string option"
  rd_max_participants :: "int option"
  rd_settings :: "(string \<times> bool) list option"

text \<open>
  \<open>users\<close> is an association list in insertion order, because the code searches it
  with \<open>next(... for sid, u in self.users.items() ...)\<close> and takes the first hit;
  \<open>AList.update\<close> keeps the position of a key that is already there, as a Python
  dictionary does.
\<close>

record manager =
  heap :: "User list"
  rooms :: "string \<rightharpoonup> Room"
  users :: "(string \<times> ref) list"
  user_rooms :: "string \<rightharpoonup> string"
  room_messages :: "string \<rightharpoonup> ChatMessage list"

datatype py_error = KeyError

definition init_manager :: manager where
  "init_manager =
     \<lparr>heap = [], rooms = Map.empty, users = [], user_rooms = Map.empty,
      room_messages = Map.empty\<rparr>"

subsection \<open>Literals of the source\<close>

definition system_name :: string where
  "system_name = [CHR 0xEC, CHR 0x8B, CHR 0x9C, CHR 0xEC, CHR 0x8A, CHR 0xA4,
                  CHR 0xED, CHR 0x85, CHR 0x9C]"

definition joined_suffix :: string where
  "joined_suffix = [CHR 0xEB, CHR 0x8B, CHR 0x98, CHR 0xEC, CHR 0x9D, CHR 0xB4, CHR 0x20,
                    CHR 0xEC, CHR 0xB0, CHR 0xB8, CHR 0xEC, CHR 0x97, CHR 0xAC,
                    CHR 0xED, CHR 0x96, CHR 0x88, CHR 0xEC, CHR 0x8A, CHR 0xB5,
                    CHR 0xEB, CHR 0x8B, CHR 0x88, CHR 0xEB, CHR 0x8B, CHR 0xA4, CHR 0x2E]"

definition left_suffix :: string where
  "left_suffix = [CHR 0xEB, CHR 0x8B, CHR 0x98, CHR 0xEC, CHR 0x9D, CHR 0xB4, CHR 0x20,
                  CHR 0xEB, CHR 0x82, CHR 0x98, CHR 0xEA, CHR 0xB0, CHR 0x80,
                  CHR 0xEC, CHR 0x85, CHR 0xA8, CHR 0xEC, CHR 0x8A, CHR 0xB5,
                  CHR 0xEB, CHR 0x8B, CHR 0x88, CHR 0xEB, CHR 0x8B, CHR 0xA4, CHR 0x2E]"

definition default_user_name :: string where
  "default_user_name = [CHR 0xEC, CHR 0x82, CHR 0xAC, CHR 0xEC, CHR 0x9A, CHR 0xA9,
                        CHR 0xEC, CHR 0x9E, CHR 0x90]"

definition default_settings :: "(string \<times> bool) list" where
  "default_settings =
     [(''allow_screen_share'', True), (''allow_chat'', True),
      (''require_approval'', False), (''is_locked'', False)]"

subsection \<open>Helpers that stand for Python expressions\<close>

text \<open>\<open>[p.id for p in room.participants]\<close>, read through the store.\<close>

definition participant_ids :: "User list \<Rightarrow> ref list \<Rightarrow> string list" where
  "participant_ids h ps = map (\<lambda>p. u_id (h ! p)) ps"

text \<open>
  \<open>next(((sid, u) for sid, u in self.users.items() if u.id == user_id), None)\<close>: the
  first registry entry whose user has the given id, read from the store and the registry.
\<close>

definition find_user :: "User list \<Rightarrow> (string \<times> ref) list \<Rightarrow> string \<Rightarrow> (string \<times> ref) option" where
  "find_user h us user_id = find (\<lambda>(sid, u). u_id (h ! u) = user_id) us"

text \<open>
  \<open>next((u.name for u in self.users.values() if u.id == user_id), "...")\<close>, with the
  default name of \<open>leave_room\<close>.
\<close>

definition name_of_user :: "User list \<Rightarrow> (string \<times> ref) list \<Rightarrow> string \<Rightarrow> string" where
  "name_of_user h us user_id =
     (case find_user h us user_id of
        None \<Rightarrow> default_user_name
      | Some (sid, u) \<Rightarrow> u_name (h ! u))"

text \<open>A system \<open>ChatMessage\<close>, as \<open>join_room\<close> and \<open>leave_room\<close> build it.\<close>

definition system_message :: "string \<Rightarrow> string \<Rightarrow> string \<Rightarrow> string \<Rightarrow> ChatMessage" where
  "system_message msg_uuid room_id text msg_now =
     \<lparr>m_id = msg_uuid, m_room_id = room_id, m_user_id = ''system'',
      m_user_name = system_name, m_message = text, m_timestamp = msg_now,
      m_type = ''system''\<rparr>"

text \<open>\<open>xs[-500:]\<close> applied when \<open>len(xs) > 500\<close>.\<close>

definition keep_recent :: "'a list \<Rightarrow> 'a list" where
  "keep_recent xs = (if length xs > 500 then drop (length xs - 500) xs else xs)"

subsection \<open>CollaborationManager\<close>

definition create_room :: "room_data \<Rightarrow> ref \<Rightarrow> string \<Rightarrow> string \<Rightarrow> manager \<Rightarrow> Room \<times> manager" where
  "create_room room_data host_user uuid_hex now s =
     (let room_id = ''room_'' @ take 8 uuid_hex;
          host = heap s ! host_user;
          room = \<lparr>r_id = room_id,
                  r_name = (case rd_name room_data of None \<Rightarrow> ''Room '' @ room_id | Some n \<Rightarrow> n),
                  r_description = (case rd_description room_data of None \<Rightarrow> '''' | Some d \<Rightarrow> d),
                  r_host_id = u_id host,
                  r_participants = [host_user],
                  r_created_at = now,
                  r_max_participants = (case rd_max_participants room_data of None \<Rightarrow> 10 | Some m \<Rightarrow> m),
                  r_settings = (case rd_settings room_data of None \<Rightarrow> default_settings | Some st \<Rightarrow> st),
                  r_is_recording = False\<rparr>
      in (room,
          s\<lparr>heap := (heap s)[host_user := host\<lparr>u_role := ''host'', u_room_id := Some room_id\<rparr>],
            rooms := (rooms s)(room_id \<mapsto> room),
            user_rooms := (user_rooms s)(u_id host \<mapsto> room_id),
            room_messages := (room_messages s)(room_id \<mapsto> [])\<rparr>))"

text \<open>
  \<open>join_room\<close>: the three guards return \<open>False\<close> before anything is written. The last
  statement, \<open>self.room_messages[room_id].append(system_msg)\<close>, raises \<open>KeyError\<close> when
  the room has no log; by then the first four writes have happened.
\<close>

definition join_room ::
  "string \<Rightarrow> ref \<Rightarrow> string \<Rightarrow> string \<Rightarrow> string \<Rightarrow> manager \<Rightarrow> (py_error + bool) \<times> manager" where
  "join_room room_id user joined_now msg_uuid msg_now s =
     (case rooms s room_id of
        None \<Rightarrow> (Inr False, s)
      | Some room \<Rightarrow>
          if int (length (r_participants room)) \<ge> r_max_participants room then (Inr False, s)
          else if u_id (heap s ! user) \<in> set (participant_ids (heap s) (r_participants room))
          then (Inr False, s)
          else
            (let u = (heap s ! user)\<lparr>u_room_id := Some room_id, u_joined_at := joined_now\<rparr>;
                 s1 = s\<lparr>heap := (heap s)[user := u],
                        rooms := (rooms s)(room_id \<mapsto>
                                   room\<lparr>r_participants := r_participants room @ [user]\<rparr>),
                        user_rooms := (user_rooms s)(u_id u \<mapsto> room_id)\<rparr>;
                 system_msg = system_message msg_uuid room_id (u_name u @ joined_suffix) msg_now
             in case room_messages s1 room_id of
                  None \<Rightarrow> (Inl KeyError, s1)
                | Some log \<Rightarrow>
                    (Inr True, s1\<lparr>room_messages := (room_messages s1)(room_id \<mapsto> log @ [system_msg])\<rparr>)))"

text \<open>
  \<open>leave_room\<close>. The list comprehension drops every participant with the given id;
  the departing host is replaced by \<open>participants[0]\<close>, or the room and its log are
  deleted when nobody is left. \<open>user.room_id\<close> and \<open>user.role\<close> of the one who leaves
  are not written.
\<close>

definition leave_room ::
  "string \<Rightarrow> string \<Rightarrow> string \<Rightarrow> manager \<Rightarrow> (py_error + string option) \<times> manager" where
  "leave_room user_id msg_uuid msg_now s =
     (case user_rooms s user_id of
        None \<Rightarrow> (Inr None, s)
      | Some room_id \<Rightarrow>
          (case rooms s room_id of
             None \<Rightarrow> (Inr None, s)
           | Some room \<Rightarrow>
               (let ps = filter (\<lambda>p. u_id (heap s ! p) \<noteq> user_id) (r_participants room);
                    s1 = s\<lparr>rooms := (rooms s)(room_id \<mapsto> room\<lparr>r_participants := ps\<rparr>),
                           user_rooms := (user_rooms s)(user_id := None)\<rparr>
                in if r_host_id room = user_id \<and> ps = [] then
                     (let s2 = s1\<lparr>rooms := (rooms s1)(room_id := None)\<rparr>
                      in case room_messages s2 room_id of
                           None \<Rightarrow> (Inl KeyError, s2)
                         | Some log \<Rightarrow>
                             (Inr (Some room_id),
                              s2\<lparr>room_messages := (room_messages s2)(room_id := None)\<rparr>))
                   else
                     (let s2 = (if r_host_id room = user_id then
                                  s1\<lparr>heap := (heap s1)[hd ps := (heap s1 ! hd ps)\<lparr>u_role := ''host''\<rparr>],
                                     rooms := (rooms s1)(room_id \<mapsto>
                                       room\<lparr>r_participants := ps, r_host_id := u_id (heap s1 ! hd ps)\<rparr>)\<rparr>
                                else s1);
                          user_name = name_of_user (heap s2) (users s2) user_id;
                          system_msg = system_message msg_uuid room_id (user_name @ left_suffix) msg_now
                      in case room_messages s2 room_id of
                           None \<Rightarrow> (Inl KeyError, s2)
                         | Some log \<Rightarrow>
                             (Inr (Some room_id),
                              s2\<lparr>room_messages := (room_messages s2)(room_id \<mapsto> log @ [system_msg])\<rparr>)))))"

text \<open>
  \<open>add_message\<close>. The user is looked up in two steps, as the source does: the socket id
  of the first registered user with that id, or the empty string, and then
  \<open>self.users.get\<close> of that key.
\<close>

definition add_message ::
  "string \<Rightarrow> string \<Rightarrow> string \<Rightarrow> string \<Rightarrow> string \<Rightarrow> manager
     \<Rightarrow> (py_error + ChatMessage option) \<times> manager" where
  "add_message room_id user_id message_text msg_uuid msg_now s =
     (if rooms s room_id = None then (Inr None, s)
      else
        (let sid = (case find_user (heap s) (users s) user_id of None \<Rightarrow> '''' | Some (sid, u) \<Rightarrow> sid)
         in case map_of (users s) sid of
              None \<Rightarrow> (Inr None, s)
            | Some user \<Rightarrow>
                (let message = \<lparr>m_id = msg_uuid, m_room_id = room_id, m_user_id = user_id,
                                m_user_name = u_name (heap s ! user), m_message = message_text,
                                m_timestamp = msg_now, m_type = ''text''\<rparr>
                 in case room_messages s room_id of
                      None \<Rightarrow> (Inl KeyError, s)
                    | Some log \<Rightarrow>
                        (Inr (Some message),
                         s\<lparr>room_messages := (room_messages s)(room_id \<mapsto> keep_recent (log @ [message]))\<rparr>))))"

subsection \<open>Socket.IO handlers\<close>

text \<open>
  What a handler sends is a list of \<open>sio.emit\<close> calls, in order: the event name, the
  payload, the \<open>room\<close> argument (a socket id addresses that one connection, a room id
  the connections that entered the room) and the \<open>skip_sid\<close> argument. Payloads are JSON
  values.
\<close>

datatype json =
    JNull
  | JBool bool
  | JInt int
  | JStr string
  | JList "json list"
  | JObj "(string \<times> json) list"

record emit =
  e_event :: string
  e_data :: json
  e_room :: string
  e_skip_sid :: "string option"

text \<open>\<open>asdict(user)\<close>.\<close>

definition asdict_user :: "User \<Rightarrow> json" where
  "asdict_user u =
     JObj [(''id'', JStr (u_id u)), (''name'', JStr (u_name u)), (''email'', JStr (u_email u)),
           (''socket_id'', JStr (u_socket_id u)),
           (''room_id'', (case u_room_id u of None \<Rightarrow> JNull | Some r \<Rightarrow> JStr r)),
           (''is_video_enabled'', JBool (u_is_video_enabled u)),
           (''is_audio_enabled'', JBool (u_is_audio_enabled u)),
           (''joined_at'', JStr (u_joined_at u)), (''role'', JStr (u_role u))]"

text \<open>
  \<open>join_user\<close>, on a payload that has \<open>user_id\<close> and \<open>name\<close>: a new \<open>User\<close> object is
  built and stored under the socket id, replacing the object that was there.
\<close>

definition join_user :: "string \<Rightarrow> string \<Rightarrow> string \<Rightarrow> string \<Rightarrow> string \<Rightarrow> manager \<Rightarrow> manager" where
  "join_user sid user_id name email now s =
     (let user = \<lparr>u_id = user_id, u_name = name, u_email = email, u_socket_id = sid,
                  u_room_id = None, u_is_video_enabled = True, u_is_audio_enabled = True,
                  u_joined_at = now, u_role = ''participant''\<rparr>
      in s\<lparr>heap := heap s @ [user],
           users := AList.update sid (length (heap s)) (users s)\<rparr>)"

text \<open>
  \<open>disconnect\<close> has no \<open>try\<close>: an exception of \<open>leave_room\<close> leaves the handler before
  \<open>del collaboration_manager.users[sid]\<close>.
\<close>

definition disconnect ::
  "string \<Rightarrow> string \<Rightarrow> string \<Rightarrow> manager \<Rightarrow> (py_error + unit) \<times> manager \<times> emit list" where
  "disconnect sid msg_uuid msg_now s =
     (case map_of (users s) sid of
        None \<Rightarrow> (Inr (), s, [])
      | Some user \<Rightarrow>
          (case leave_room (u_id (heap s ! user)) msg_uuid msg_now s of
             (Inl e, s1) \<Rightarrow> (Inl e, s1, [])
           | (Inr room_id, s1) \<Rightarrow>
               (let out =
                      (case room_id of
                         None \<Rightarrow> []
                       | Some rid \<Rightarrow>
                           (case (if rid \<noteq> [] then rooms s1 rid else None) of
                              None \<Rightarrow> []
                            | Some room \<Rightarrow>
                                [\<lparr>e_event = ''participant_left'',
                                  e_data = JObj [(''user_id'', JStr (u_id (heap s1 ! user))),
                                                 (''user_name'', JStr (u_name (heap s1 ! user))),
                                                 (''room_id'', JStr rid)],
                                  e_room = rid, e_skip_sid = None\<rparr>,
                                 \<lparr>e_event = ''participants_updated'',
                                  e_data = JObj [(''participants'',
                                             JList (map (\<lambda>p. asdict_user (heap s1 ! p))
                                                      (r_participants room)))],
                                  e_room = rid, e_skip_sid = None\<rparr>]))
                in (Inr (), s1\<lparr>users := AList.delete sid (users s1)\<rparr>, out))))"

text \<open>
  \<open>webrtc_offer\<close>, \<open>webrtc_answer\<close> and \<open>webrtc_ice_candidate\<close> are three copies of one
  body that differ in the event name and in the payload key. A missing key raises
  \<open>KeyError\<close> inside the \<open>try\<close>; the \<open>except\<close> logs it and sends nothing.
  \<open>data\<close> is the JSON object the client sent.
\<close>

definition relay :: "string \<Rightarrow> string \<Rightarrow> string \<Rightarrow> (string \<rightharpoonup> json) \<Rightarrow> manager \<Rightarrow> emit list" where
  "relay event_name payload_key sid data s =
     (case data ''target_user_id'' of
        None \<Rightarrow> []
      | Some target_user_id \<Rightarrow>
          (case data payload_key of
             None \<Rightarrow> []
           | Some payload \<Rightarrow>
               (case map_of (users s) sid of
                  None \<Rightarrow> []
                | Some user \<Rightarrow>
                    (case find (\<lambda>(socket_id, target_user).
                                  JStr (u_id (heap s ! target_user)) = target_user_id) (users s) of
                       None \<Rightarrow> []
                     | Some (target_sid, target_user) \<Rightarrow>
                         if target_sid \<noteq> [] then
                           [\<lparr>e_event = event_name,
                             e_data = JObj [(''from_user_id'', JStr (u_id (heap s ! user))),
                                            (payload_key, payload)],
                             e_room = target_sid, e_skip_sid = None\<rparr>]
                         else []))))"

definition webrtc_offer :: "string \<Rightarrow> (string \<rightharpoonup> json) \<Rightarrow> manager \<Rightarrow> emit list" where
  "webrtc_offer = relay ''webrtc_offer'' ''offer''"

definition webrtc_answer :: "string \<Rightarrow> (string \<rightharpoonup> json) \<Rightarrow> manager \<Rightarrow> emit list" where
  "webrtc_answer = relay ''webrtc_answer'' ''answer''"

definition webrtc_ice_candidate :: "string \<Rightarrow> (string \<rightharpoonup> json) \<Rightarrow> manager \<Rightarrow> emit list" where
  "webrtc_ice_candidate = relay ''webrtc_ice_candidate'' ''candidate''"

text \<open>
  \<open>toggle_video\<close> and \<open>toggle_audio\<close> write one field of the sender's \<open>User\<close> object, when
  the sender is registered and its \<open>room_id\<close> is set, and tell the room. \<open>enabled\<close> is
  \<open>data['enabled']\<close>; when the key is missing the \<open>except\<close> logs the \<open>KeyError\<close> and nothing
  is written or sent.
\<close>

definition toggle_video :: "string \<Rightarrow> bool option \<Rightarrow> manager \<Rightarrow> manager \<times> emit list" where
  "toggle_video sid enabled s =
     (case map_of (users s) sid of
        None \<Rightarrow> (s, [])
      | Some user \<Rightarrow>
          (case u_room_id (heap s ! user) of
             None \<Rightarrow> (s, [])
           | Some room_id \<Rightarrow>
               if room_id = [] then (s, [])
               else
                 (case enabled of
                    None \<Rightarrow> (s, [])
                  | Some b \<Rightarrow>
                      (s\<lparr>heap := (heap s)[user := (heap s ! user)\<lparr>u_is_video_enabled := b\<rparr>]\<rparr>,
                       [\<lparr>e_event = ''participant_video_toggled'',
                         e_data = JObj [(''user_id'', JStr (u_id (heap s ! user))),
                                        (''enabled'', JBool b)],
                         e_room = room_id, e_skip_sid = Some sid\<rparr>]))))"

definition toggle_audio :: "string \<Rightarrow> bool option \<Rightarrow> manager \<Rightarrow> manager \<times> emit list" where
  "toggle_audio sid enabled s =
     (case map_of (users s) sid of
        None \<Rightarrow> (s, [])
      | Some user \<Rightarrow>
          (case u_room_id (heap s ! user) of
             None \<Rightarrow> (s, [])
           | Some room_id \<Rightarrow>
               if room_id = [] then (s, [])
               else
                 (case enabled of
                    None \<Rightarrow> (s, [])
                  | Some b \<Rightarrow>
                      (s\<lparr>heap := (heap s)[user := (heap s ! user)\<lparr>u_is_audio_enabled := b\<rparr>]\<rparr>,
                       [\<lparr>e_event = ''participant_audio_toggled'',
                         e_data = JObj [(''user_id'', JStr (u_id (heap s ! user))),
                                        (''enabled'', JBool b)],
                         e_room = room_id, e_skip_sid = Some sid\<rparr>]))))"

text \<open>The \<open>host_name\<close> entry of \<open>get_rooms\<close>.\<close>

definition host_name :: "manager \<Rightarrow> Room \<Rightarrow> string" where
  "host_name s room =
     (case r_participants room of [] \<Rightarrow> '''' | p # ps \<Rightarrow> u_name (heap s ! p))"

subsection \<open>Reachable states\<close>

text \<open>
  The states the server can be in: the fresh manager, and what registration, the four
  manager operations (on any \<open>User\<close> object that exists), a disconnect and the two media
  toggles make of a reachable state, whatever the arguments and whatever the clock and
  the uuid generator return. These are all the writes of the module to the manager and
  to \<open>User\<close> objects.
\<close>

inductive reachable :: "manager \<Rightarrow> bool" where
  r_init: "reachable init_manager"
| r_join_user: "reachable s \<Longrightarrow> reachable (join_user sid user_id name email now s)"
| r_create_room:
    "reachable s \<Longrightarrow> host_user < length (heap s)
       \<Longrightarrow> reachable (snd (create_room room_data host_user uuid_hex now s))"
| r_join_room:
    "reachable s \<Longrightarrow> user < length (heap s)
       \<Longrightarrow> reachable (snd (join_room room_id user joined_now msg_uuid msg_now s))"
| r_leave_room: "reachable s \<Longrightarrow> reachable (snd (leave_room user_id msg_uuid msg_now s))"
| r_add_message:
    "reachable s \<Longrightarrow> reachable (snd (add_message room_id user_id message_text msg_uuid msg_now s))"
| r_disconnect: "reachable s \<Longrightarrow> reachable (fst (snd (disconnect sid msg_uuid msg_now s)))"
| r_toggle_video: "reachable s \<Longrightarrow> reachable (fst (toggle_video sid enabled s))"
| r_toggle_audio: "reachable s \<Longrightarrow> reachable (fst (toggle_audio sid enabled s))"

text \<open>The invariant that the reachable states keep.\<close>

definition refs_ok :: "manager \<Rightarrow> bool" where
  "refs_ok s \<longleftrightarrow>
     (\<forall>(sid, u) \<in> set (users s). u < length (heap s)) \<and>
     (\<forall>rid room. rooms s rid = Some room \<longrightarrow> (\<forall>p \<in> set (r_participants room). p < length (heap s)))"

definition logs_ok :: "manager \<Rightarrow> bool" where
  "logs_ok s \<longleftrightarrow> (\<forall>rid room. rooms s rid = Some room \<longrightarrow> room_messages s rid \<noteq> None)"

definition room_ok :: "User list \<Rightarrow> Room \<Rightarrow> bool" where
  "room_ok h room \<longleftrightarrow>
     r_participants room \<noteq> [] \<and>
     u_id (h ! hd (r_participants room)) = r_host_id room \<and>
     u_role (h ! hd (r_participants room)) = ''host'' \<and>
     distinct (participant_ids h (r_participants room)) \<and>
     (1 \<le> r_max_participants room \<longrightarrow> int (length (r_participants room)) \<le> r_max_participants room)"

definition wf :: "manager \<Rightarrow> bool" where
  "wf s \<longleftrightarrow> refs_ok s \<and> logs_ok s \<and> (\<forall>rid room. rooms s rid = Some room \<longrightarrow> room_ok (heap s) room)"

subsection \<open>Vocabulary of the properties\<close>

definition within_capacity :: "Room \<Rightarrow> bool" where
  "within_capacity room \<longleftrightarrow> int (length (r_participants room)) \<le> r_max_participants room"

text \<open>The user ids of the connected (registered) users, in registry order.\<close>

definition registered_ids :: "manager \<Rightarrow> string list" where
  "registered_ids s = map (\<lambda>(sid, u). u_id (heap s ! u)) (users s)"

subsection \<open>Concrete runs\<close>

text \<open>
  Three connections register (objects 0, 1 and 2 of the store); the first creates a room
  for two (scenario A of the specification), the second joins it.
\<close>

definition room_for :: "int \<Rightarrow> room_data" where
  "room_for m = \<lparr>rd_name = Some ''Standup'', rd_description = None,
                 rd_max_participants = Some m, rd_settings = None\<rparr>"

definition registered3 :: manager where
  "registered3 =
     join_user ''sid3'' ''u3'' ''Cho'' '''' ''2024-05-01T09:00:03''
       (join_user ''sid2'' ''u2'' ''Bea'' '''' ''2024-05-01T09:00:02''
         (join_user ''sid1'' ''u1'' ''Ann'' ''ann@example.org'' ''2024-05-01T09:00:01''
            init_manager))"

definition room_a :: string where
  "room_a = ''room_0a1b2c3d''"

definition created :: manager where
  "created = snd (create_room (room_for 2) 0 ''0a1b2c3d4e5f60718293a4b5c6d7e8f9''
                    ''2024-05-01T09:01:00'' registered3)"

definition joined :: manager where
  "joined = snd (join_room room_a 1 ''2024-05-01T09:02:00'' ''m-1'' ''2024-05-01T09:02:00'' created)"

text \<open>A room whose creator asks for no seats at all.\<close>

definition created_zero :: manager where
  "created_zero = snd (create_room (room_for 0) 0 ''0a1b2c3d4e5f60718293a4b5c6d7e8f9''
                         ''2024-05-01T09:01:00'' registered3)"

text \<open>The creator leaves the room alone; or creates a second room without leaving the first.\<close>

definition created_left :: manager where
  "created_left = snd (leave_room ''u1'' ''m-2'' ''2024-05-01T09:03:00'' created)"

definition room_b :: string where
  "room_b = ''room_ffee0011''"

definition created_twice :: manager where
  "created_twice = snd (create_room (room_for 2) 0 ''ffee00112233445566778899aabbccdd''
                          ''2024-05-01T09:03:00'' created)"

text \<open>
  A fourth connection (object 3) creates a second room. The second and the third user
  join the first room, in this order. Then the second user, still a member of the first
  room, joins the second room too, and after that the host of the first room leaves.
\<close>

definition one_room :: manager where
  "one_room =
     snd (join_room room_a 2 ''2024-05-01T09:03:00'' ''m-4'' ''2024-05-01T09:03:00''
       (snd (join_room room_a 1 ''2024-05-01T09:02:00'' ''m-3'' ''2024-05-01T09:02:00''
         (snd (create_room (room_for 5) 3 ''ffee00112233445566778899aabbccdd''
                 ''2024-05-01T09:01:30''
           (snd (create_room (room_for 5) 0 ''0a1b2c3d4e5f60718293a4b5c6d7e8f9''
                   ''2024-05-01T09:01:00''
             (join_user ''sid4'' ''u4'' ''Dan'' '''' ''2024-05-01T09:00:04'' registered3))))))))"

definition two_rooms :: manager where
  "two_rooms =
     snd (join_room room_b 1 ''2024-05-01T09:04:00'' ''m-5'' ''2024-05-01T09:04:00'' one_room)"

definition host_left :: manager where
  "host_left = snd (leave_room ''u1'' ''m-6'' ''2024-05-01T09:05:00'' two_rooms)"

text \<open>The creator of two rooms leaves once.\<close>

definition created_twice_left :: manager where
  "created_twice_left = snd (leave_room ''u1'' ''m-13'' ''2024-05-01T09:04:00'' created_twice)"

text \<open>The creator of the room posts \<open>n\<close> chat messages.\<close>

definition chat :: "nat \<Rightarrow> manager \<Rightarrow> manager" where
  "chat n s = ((\<lambda>s. snd (add_message room_a ''u1'' ''hello'' ''m-7'' ''2024-05-01T09:06:00'' s)) ^^ n) s"

text \<open>A signaling payload addressed to a user id; it has the payload keys of all three events.\<close>

definition signal_to :: "string \<Rightarrow> (string \<rightharpoonup> json)" where
  "signal_to t =
     [''target_user_id'' \<mapsto> JStr t, ''offer'' \<mapsto> JStr ''sdp-offer'',
      ''answer'' \<mapsto> JStr ''sdp-answer'', ''candidate'' \<mapsto> JStr ''ice-candidate'']"

section \<open>The invariant of the reachable states\<close>

subsection \<open>Writes to the store\<close>

lemma heap_upd_id:
  "u_id u' = u_id (h ! r) \<Longrightarrow> u_id (h[r := u'] ! p) = u_id (h ! p)"
  by (cases "r < length h") (auto simp: nth_list_update list_update_beyond)

lemma heap_upd_role:
  "(u_role (h ! r) = ''host'' \<longrightarrow> u_role u' = ''host'') \<Longrightarrow> u_role (h ! p) = ''host''
     \<Longrightarrow> u_role (h[r := u'] ! p) = ''host''"
  by (cases "r < length h") (auto simp: nth_list_update list_update_beyond)

lemma participant_ids_upd:
  "u_id u' = u_id (h ! r) \<Longrightarrow> participant_ids (h[r := u']) ps = participant_ids h ps"
  by (simp add: participant_ids_def heap_upd_id)

lemma room_ok_upd:
  "room_ok h room \<Longrightarrow> u_id u' = u_id (h ! r)
     \<Longrightarrow> (u_role (h ! r) = ''host'' \<longrightarrow> u_role u' = ''host'')
     \<Longrightarrow> room_ok (h[r := u']) room"
  unfolding room_ok_def by (simp add: participant_ids_upd heap_upd_id heap_upd_role)

lemma participant_ids_append:
  "\<forall>p \<in> set ps. p < length h \<Longrightarrow> participant_ids (h @ [x]) ps = participant_ids h ps"
  by (simp add: participant_ids_def nth_append)

lemma room_ok_append:
  "room_ok h room \<Longrightarrow> \<forall>p \<in> set (r_participants room). p < length h
     \<Longrightarrow> room_ok (h @ [x]) room"
  unfolding room_ok_def by (simp add: participant_ids_append nth_append)

lemma set_alist_update: "set (AList.update k v al) \<subseteq> insert (k, v) (set al)"
  by (induction al) auto

lemma set_alist_delete: "set (AList.delete k al) \<subseteq> set al"
  by (auto simp: AList.delete_eq)

lemma wf_init: "wf init_manager"
  by (simp add: wf_def refs_ok_def logs_ok_def init_manager_def)


lemma join_user_sel:
  "heap (join_user sid user_id name email now s) =
     heap s @ [\<lparr>u_id = user_id, u_name = name, u_email = email, u_socket_id = sid,
                u_room_id = None, u_is_video_enabled = True, u_is_audio_enabled = True,
                u_joined_at = now, u_role = ''participant''\<rparr>]"
  "rooms (join_user sid user_id name email now s) = rooms s"
  "room_messages (join_user sid user_id name email now s) = room_messages s"
  "user_rooms (join_user sid user_id name email now s) = user_rooms s"
  "users (join_user sid user_id name email now s) = AList.update sid (length (heap s)) (users s)"
  by (simp_all add: join_user_def)

lemma wf_join_user:
  assumes "wf s"
  shows "wf (join_user sid user_id name email now s)"
proof -
  from assms have a: "refs_ok s" and b: "logs_ok s"
    and ok: "\<And>rid room. rooms s rid = Some room \<Longrightarrow> room_ok (heap s) room"
    by (auto simp: wf_def)
  have "refs_ok (join_user sid user_id name email now s)"
    using a set_alist_update[of sid "length (heap s)" "users s"]
    unfolding refs_ok_def join_user_sel by (fastforce simp: less_Suc_eq)
  moreover have "logs_ok (join_user sid user_id name email now s)"
    using b unfolding logs_ok_def join_user_sel .
  moreover have "room_ok (heap (join_user sid user_id name email now s)) room"
    if "rooms (join_user sid user_id name email now s) rid = Some room" for rid room
    using that a ok unfolding join_user_sel refs_ok_def
    by (auto intro!: room_ok_append)
  ultimately show ?thesis by (simp add: wf_def)
qed


lemma create_room_sel:
  "heap (snd (create_room room_data host_user uuid_hex now s)) =
     (heap s)[host_user := (heap s ! host_user)\<lparr>u_role := ''host'',
                u_room_id := Some (''room_'' @ take 8 uuid_hex)\<rparr>]"
  "users (snd (create_room room_data host_user uuid_hex now s)) = users s"
  "room_messages (snd (create_room room_data host_user uuid_hex now s)) =
     (room_messages s)(''room_'' @ take 8 uuid_hex \<mapsto> [])"
  "user_rooms (snd (create_room room_data host_user uuid_hex now s)) =
     (user_rooms s)(u_id (heap s ! host_user) \<mapsto> ''room_'' @ take 8 uuid_hex)"
  "rooms (snd (create_room room_data host_user uuid_hex now s)) =
     (rooms s)(''room_'' @ take 8 uuid_hex \<mapsto> fst (create_room room_data host_user uuid_hex now s))"
  "r_participants (fst (create_room room_data host_user uuid_hex now s)) = [host_user]"
  "r_host_id (fst (create_room room_data host_user uuid_hex now s)) = u_id (heap s ! host_user)"
  "r_max_participants (fst (create_room room_data host_user uuid_hex now s)) =
     (case rd_max_participants room_data of None \<Rightarrow> 10 | Some m \<Rightarrow> m)"
  by (simp_all add: create_room_def Let_def)

lemma wf_create_room:
  assumes "wf s" "host_user < length (heap s)"
  shows "wf (snd (create_room room_data host_user uuid_hex now s))"
proof -
  from assms have a: "refs_ok s" and b: "logs_ok s"
    and ok: "\<And>rid room. rooms s rid = Some room \<Longrightarrow> room_ok (heap s) room"
    by (auto simp: wf_def)
  have "refs_ok (snd (create_room room_data host_user uuid_hex now s))"
    using a assms(2) unfolding refs_ok_def create_room_sel
    by (auto simp: create_room_sel split: if_splits)
  moreover have "logs_ok (snd (create_room room_data host_user uuid_hex now s))"
    using b unfolding logs_ok_def create_room_sel by auto
  moreover have "room_ok (heap (snd (create_room room_data host_user uuid_hex now s))) room"
    if "rooms (snd (create_room room_data host_user uuid_hex now s)) rid = Some room" for rid room
  proof (cases "rid = ''room_'' @ take 8 uuid_hex")
    case True
    with that have "room = fst (create_room room_data host_user uuid_hex now s)"
      by (simp add: create_room_sel)
    then show ?thesis using assms(2) unfolding room_ok_def
      by (simp add: create_room_sel participant_ids_def)
  next
    case False
    with that have "rooms s rid = Some room" by (simp add: create_room_sel)
    then show ?thesis unfolding create_room_sel by (intro room_ok_upd ok) simp_all
  qed
  ultimately show ?thesis by (simp add: wf_def)
qed


lemma join_room_no_room:
  "rooms s room_id = None \<Longrightarrow> join_room room_id user joined_now msg_uuid msg_now s = (Inr False, s)"
  by (simp add: join_room_def)

lemma join_room_full:
  "rooms s room_id = Some room \<Longrightarrow> r_max_participants room \<le> int (length (r_participants room))
     \<Longrightarrow> join_room room_id user joined_now msg_uuid msg_now s = (Inr False, s)"
  by (simp add: join_room_def)

lemma join_room_member:
  "rooms s room_id = Some room
     \<Longrightarrow> u_id (heap s ! user) \<in> set (participant_ids (heap s) (r_participants room))
     \<Longrightarrow> join_room room_id user joined_now msg_uuid msg_now s = (Inr False, s)"
  by (simp add: join_room_def)

lemma join_room_success:
  "rooms s room_id = Some room \<Longrightarrow> int (length (r_participants room)) < r_max_participants room
     \<Longrightarrow> u_id (heap s ! user) \<notin> set (participant_ids (heap s) (r_participants room))
     \<Longrightarrow> room_messages s room_id = Some log
     \<Longrightarrow> join_room room_id user joined_now msg_uuid msg_now s =
           (Inr True,
            s\<lparr>heap := (heap s)[user := (heap s ! user)\<lparr>u_room_id := Some room_id,
                                                        u_joined_at := joined_now\<rparr>],
              rooms := (rooms s)(room_id \<mapsto> room\<lparr>r_participants := r_participants room @ [user]\<rparr>),
              user_rooms := (user_rooms s)(u_id (heap s ! user) \<mapsto> room_id),
              room_messages := (room_messages s)(room_id \<mapsto>
                 log @ [system_message msg_uuid room_id (u_name (heap s ! user) @ joined_suffix) msg_now])\<rparr>)"
  by (simp add: join_room_def Let_def)

lemma wf_join_room:
  assumes "wf s" "user < length (heap s)"
  shows "wf (snd (join_room room_id user joined_now msg_uuid msg_now s))"
proof -
  from assms have a: "refs_ok s" and b: "logs_ok s"
    and ok: "\<And>rid room. rooms s rid = Some room \<Longrightarrow> room_ok (heap s) room"
    by (auto simp: wf_def)
  show ?thesis
  proof (cases "rooms s room_id")
    case None
    then show ?thesis using assms(1) by (simp add: join_room_no_room)
  next
    case (Some room)
    show ?thesis
    proof (cases "r_max_participants room \<le> int (length (r_participants room))
                  \<or> u_id (heap s ! user) \<in> set (participant_ids (heap s) (r_participants room))")
      case True
      then show ?thesis using assms(1) Some by (auto simp: join_room_full join_room_member)
    next
      case False
      from b Some obtain log where log: "room_messages s room_id = Some log"
        by (auto simp: logs_ok_def)
      let ?u = "(heap s ! user)\<lparr>u_room_id := Some room_id, u_joined_at := joined_now\<rparr>"
      let ?h = "(heap s)[user := ?u]"
      let ?room = "room\<lparr>r_participants := r_participants room @ [user]\<rparr>"
      have eq: "join_room room_id user joined_now msg_uuid msg_now s =
           (Inr True,
            s\<lparr>heap := ?h, rooms := (rooms s)(room_id \<mapsto> ?room),
              user_rooms := (user_rooms s)(u_id (heap s ! user) \<mapsto> room_id),
              room_messages := (room_messages s)(room_id \<mapsto>
                 log @ [system_message msg_uuid room_id (u_name (heap s ! user) @ joined_suffix) msg_now])\<rparr>)"
        using False Some log by (intro join_room_success) auto
      have old: "room_ok (heap s) room" using ok Some .
      have "room_ok (heap s) ?room"
        using old False unfolding room_ok_def by (auto simp: participant_ids_def)
      then have new: "room_ok ?h ?room" by (rule room_ok_upd) simp_all
      have "refs_ok (snd (join_room room_id user joined_now msg_uuid msg_now s))"
        using a assms(2) Some unfolding eq refs_ok_def by (auto split: if_splits)
      moreover have "logs_ok (snd (join_room room_id user joined_now msg_uuid msg_now s))"
        using b unfolding eq logs_ok_def by auto
      moreover have "room_ok (heap (snd (join_room room_id user joined_now msg_uuid msg_now s))) r"
        if "rooms (snd (join_room room_id user joined_now msg_uuid msg_now s)) rid = Some r" for rid r
      proof (cases "rid = room_id")
        case True
        with that have "r = ?room" by (simp add: eq)
        then show ?thesis using new by (simp add: eq)
      next
        case False
        with that have "rooms s rid = Some r" by (simp add: eq)
        then have "room_ok ?h r" by (intro room_ok_upd ok) simp_all
        then show ?thesis by (simp add: eq)
      qed
      ultimately show ?thesis by (simp add: wf_def)
    qed
  qed
qed


lemma heap_upd_role_name:
  "u_name (h[r := (h ! r)\<lparr>u_role := x\<rparr>] ! p) = u_name (h ! p)"
  by (cases "r < length h") (auto simp: nth_list_update list_update_beyond)

lemma name_of_user_role_upd:
  "name_of_user (h[r := (h ! r)\<lparr>u_role := x\<rparr>]) us uid = name_of_user h us uid"
  by (simp add: name_of_user_def find_user_def heap_upd_id heap_upd_role_name
        split: option.splits prod.splits)

lemma leave_room_no_entry:
  "user_rooms s user_id = None \<Longrightarrow> leave_room user_id msg_uuid msg_now s = (Inr None, s)"
  by (simp add: leave_room_def)

lemma leave_room_no_room:
  "user_rooms s user_id = Some room_id \<Longrightarrow> rooms s room_id = None
     \<Longrightarrow> leave_room user_id msg_uuid msg_now s = (Inr None, s)"
  by (simp add: leave_room_def)

lemma leave_room_delete:
  "user_rooms s user_id = Some room_id \<Longrightarrow> rooms s room_id = Some room
     \<Longrightarrow> r_host_id room = user_id
     \<Longrightarrow> filter (\<lambda>p. u_id (heap s ! p) \<noteq> user_id) (r_participants room) = []
     \<Longrightarrow> room_messages s room_id = Some log
     \<Longrightarrow> leave_room user_id msg_uuid msg_now s =
           (Inr (Some room_id),
            s\<lparr>rooms := (rooms s)(room_id := None),
              user_rooms := (user_rooms s)(user_id := None),
              room_messages := (room_messages s)(room_id := None)\<rparr>)"
  by (simp add: leave_room_def Let_def)

lemma leave_room_promote:
  "user_rooms s user_id = Some room_id \<Longrightarrow> rooms s room_id = Some room
     \<Longrightarrow> r_host_id room = user_id
     \<Longrightarrow> filter (\<lambda>p. u_id (heap s ! p) \<noteq> user_id) (r_participants room) = ps
     \<Longrightarrow> ps \<noteq> []
     \<Longrightarrow> room_messages s room_id = Some log
     \<Longrightarrow> leave_room user_id msg_uuid msg_now s =
           (Inr (Some room_id),
            s\<lparr>heap := (heap s)[hd ps := (heap s ! hd ps)\<lparr>u_role := ''host''\<rparr>],
              rooms := (rooms s)(room_id \<mapsto>
                         room\<lparr>r_participants := ps, r_host_id := u_id (heap s ! hd ps)\<rparr>),
              user_rooms := (user_rooms s)(user_id := None),
              room_messages := (room_messages s)(room_id \<mapsto>
                 log @ [system_message msg_uuid room_id (name_of_user (heap s) (users s) user_id @ left_suffix) msg_now])\<rparr>)"
  by (simp add: leave_room_def Let_def name_of_user_role_upd)

lemma leave_room_member:
  "user_rooms s user_id = Some room_id \<Longrightarrow> rooms s room_id = Some room
     \<Longrightarrow> r_host_id room \<noteq> user_id
     \<Longrightarrow> room_messages s room_id = Some log
     \<Longrightarrow> leave_room user_id msg_uuid msg_now s =
           (Inr (Some room_id),
            s\<lparr>rooms := (rooms s)(room_id \<mapsto>
                  room\<lparr>r_participants := filter (\<lambda>p. u_id (heap s ! p) \<noteq> user_id) (r_participants room)\<rparr>),
              user_rooms := (user_rooms s)(user_id := None),
              room_messages := (room_messages s)(room_id \<mapsto>
                 log @ [system_message msg_uuid room_id (name_of_user (heap s) (users s) user_id @ left_suffix) msg_now])\<rparr>)"
  by (simp add: leave_room_def Let_def)

lemma capacity_filter:
  assumes "1 \<le> m \<longrightarrow> int (length xs) \<le> m"
  shows "1 \<le> m \<longrightarrow> int (length (filter P xs)) \<le> m"
proof
  assume "1 \<le> m"
  with assms have "int (length xs) \<le> m" by simp
  moreover have "int (length (filter P xs)) \<le> int (length xs)" by simp
  ultimately show "int (length (filter P xs)) \<le> m" by (rule order_trans[rotated])
qed

lemma room_ok_filter_member:
  assumes "room_ok h room" "r_host_id room \<noteq> uid"
  shows "room_ok h (room\<lparr>r_participants := filter (\<lambda>p. u_id (h ! p) \<noteq> uid) (r_participants room)\<rparr>)"
proof -
  from assms obtain p ps where ps: "r_participants room = p # ps" and "u_id (h ! p) \<noteq> uid"
    by (cases "r_participants room") (auto simp: room_ok_def)
  have cap: "1 \<le> r_max_participants room \<longrightarrow>
      int (length (filter (\<lambda>p. u_id (h ! p) \<noteq> uid) (r_participants room))) \<le> r_max_participants room"
    using assms(1) by (intro capacity_filter) (simp add: room_ok_def)
  have "distinct (participant_ids h (filter (\<lambda>p. u_id (h ! p) \<noteq> uid) (r_participants room)))"
    using assms(1) unfolding room_ok_def participant_ids_def by (simp add: distinct_map_filter)
  moreover have "hd (filter (\<lambda>p. u_id (h ! p) \<noteq> uid) (r_participants room)) = hd (r_participants room)"
    "filter (\<lambda>p. u_id (h ! p) \<noteq> uid) (r_participants room) \<noteq> []"
    using ps \<open>u_id (h ! p) \<noteq> uid\<close> by simp_all
  ultimately show ?thesis using assms(1) cap
    unfolding room_ok_def by simp
qed

lemma room_ok_filter_host:
  assumes "room_ok h room" "filter (\<lambda>p. u_id (h ! p) \<noteq> uid) (r_participants room) = ps"
    "ps \<noteq> []" "\<forall>p \<in> set (r_participants room). p < length h"
  shows "room_ok (h[hd ps := (h ! hd ps)\<lparr>u_role := ''host''\<rparr>])
           (room\<lparr>r_participants := ps, r_host_id := u_id (h ! hd ps)\<rparr>)"
proof -
  have "hd ps \<in> set ps" using assms(3) by simp
  then have "hd ps \<in> set (r_participants room)" using assms(2) by auto
  then have lt: "hd ps < length h" using assms(4) by simp
  have cap: "1 \<le> r_max_participants room \<longrightarrow> int (length ps) \<le> r_max_participants room"
    using assms(1) unfolding assms(2)[symmetric] by (intro capacity_filter) (simp add: room_ok_def)
  have "distinct (participant_ids h ps)"
    using assms(1,2) unfolding room_ok_def participant_ids_def by (auto simp: distinct_map_filter)
  then show ?thesis using assms(3) lt cap
    unfolding room_ok_def by (simp add: participant_ids_upd heap_upd_id)
qed

lemma wf_leave_room:
  assumes "wf s"
  shows "wf (snd (leave_room user_id msg_uuid msg_now s))"
proof -
  from assms have a: "refs_ok s" and b: "logs_ok s"
    and ok: "\<And>rid room. rooms s rid = Some room \<Longrightarrow> room_ok (heap s) room"
    by (auto simp: wf_def)
  show ?thesis
  proof (cases "user_rooms s user_id")
    case None
    then show ?thesis using assms by (simp add: leave_room_no_entry)
  next
    case (Some room_id)
    note ur = Some
    show ?thesis
    proof (cases "rooms s room_id")
      case None
      then show ?thesis using assms ur by (simp add: leave_room_no_room)
    next
      case (Some room)
      from b Some obtain log where log: "room_messages s room_id = Some log"
        by (auto simp: logs_ok_def)
      let ?ps = "filter (\<lambda>p. u_id (heap s ! p) \<noteq> user_id) (r_participants room)"
      have refs: "\<forall>p \<in> set (r_participants room). p < length (heap s)"
        using a Some by (auto simp: refs_ok_def)
      consider (del) "r_host_id room = user_id" "?ps = []"
        | (pro) "r_host_id room = user_id" "?ps \<noteq> []"
        | (mem) "r_host_id room \<noteq> user_id" by blast
      then show ?thesis
      proof cases
        case del
        note eq = leave_room_delete[OF ur Some del log, of msg_uuid msg_now]
        show ?thesis using a b ok unfolding eq wf_def refs_ok_def logs_ok_def
          by (auto split: if_splits)
      next
        case pro
        note eq = leave_room_promote[OF ur Some pro(1) refl pro(2) log, of msg_uuid msg_now]
        have new: "room_ok ((heap s)[hd ?ps := (heap s ! hd ?ps)\<lparr>u_role := ''host''\<rparr>])
           (room\<lparr>r_participants := ?ps, r_host_id := u_id (heap s ! hd ?ps)\<rparr>)"
          using ok[OF Some] refl pro(2) refs by (rule room_ok_filter_host)
        have other: "room_ok ((heap s)[hd ?ps := (heap s ! hd ?ps)\<lparr>u_role := ''host''\<rparr>]) r"
          if "rooms s rid = Some r" for rid r
          using ok[OF that] by (rule room_ok_upd) simp_all
        have "refs_ok (snd (leave_room user_id msg_uuid msg_now s))"
          using a refs unfolding eq refs_ok_def by (auto split: if_splits)
        moreover have "logs_ok (snd (leave_room user_id msg_uuid msg_now s))"
          using b unfolding eq logs_ok_def by auto
        moreover have "room_ok (heap (snd (leave_room user_id msg_uuid msg_now s))) r"
          if "rooms (snd (leave_room user_id msg_uuid msg_now s)) rid = Some r" for rid r
          using that new other unfolding eq by (cases "rid = room_id") auto
        ultimately show ?thesis by (simp add: wf_def)
      next
        case mem
        note eq = leave_room_member[OF ur Some mem log, of msg_uuid msg_now]
        have new: "room_ok (heap s) (room\<lparr>r_participants := ?ps\<rparr>)"
          using ok[OF Some] mem by (rule room_ok_filter_member)
        have "refs_ok (snd (leave_room user_id msg_uuid msg_now s))"
          using a refs unfolding eq refs_ok_def by (auto split: if_splits)
        moreover have "logs_ok (snd (leave_room user_id msg_uuid msg_now s))"
          using b unfolding eq logs_ok_def by auto
        moreover have "room_ok (heap (snd (leave_room user_id msg_uuid msg_now s))) r"
          if "rooms (snd (leave_room user_id msg_uuid msg_now s)) rid = Some r" for rid r
          using that new ok unfolding eq by (cases "rid = room_id") auto
        ultimately show ?thesis by (simp add: wf_def)
      qed
    qed
  qed
qed

lemma wf_users_upd:
  "wf s \<Longrightarrow> set us \<subseteq> set (users s) \<Longrightarrow> wf (s\<lparr>users := us\<rparr>)"
  unfolding wf_def refs_ok_def logs_ok_def by auto

lemma wf_add_message:
  assumes "wf s"
  shows "wf (snd (add_message room_id user_id message_text msg_uuid msg_now s))"
proof -
  let ?s' = "snd (add_message room_id user_id message_text msg_uuid msg_now s)"
  have "heap ?s' = heap s" "rooms ?s' = rooms s" "users ?s' = users s"
    and "\<And>rid. room_messages s rid \<noteq> None \<Longrightarrow> room_messages ?s' rid \<noteq> None"
    by (auto simp: add_message_def Let_def split: option.splits)
  then show ?thesis using assms unfolding wf_def refs_ok_def logs_ok_def by simp
qed


lemma wf_disconnect:
  assumes "wf s"
  shows "wf (fst (snd (disconnect sid msg_uuid msg_now s)))"
proof (cases "map_of (users s) sid")
  case None
  then show ?thesis using assms by (simp add: disconnect_def)
next
  case (Some user)
  obtain res s1 where lr: "leave_room (u_id (heap s ! user)) msg_uuid msg_now s = (res, s1)"
    by (cases "leave_room (u_id (heap s ! user)) msg_uuid msg_now s")
  have w: "wf s1" using wf_leave_room[OF assms, of "u_id (heap s ! user)" msg_uuid msg_now]
    by (simp add: lr)
  show ?thesis
  proof (cases res)
    case (Inl e)
    then show ?thesis using w Some lr by (simp add: disconnect_def)
  next
    case (Inr room_id)
    have "wf (s1\<lparr>users := AList.delete sid (users s1)\<rparr>)"
      using w by (rule wf_users_upd) (rule set_alist_delete)
    then show ?thesis using Some Inr lr by (simp add: disconnect_def Let_def)
  qed
qed

lemma wf_heap_upd:
  assumes "wf s" and "u_id u' = u_id (heap s ! r)" and "u_role u' = u_role (heap s ! r)"
  shows "wf (s\<lparr>heap := (heap s)[r := u']\<rparr>)"
proof -
  have "room_ok ((heap s)[r := u']) room" if "rooms s rid = Some room" for rid room
  proof -
    from assms(1) that have "room_ok (heap s) room" by (simp add: wf_def)
    then show ?thesis by (rule room_ok_upd) (simp_all add: assms(2,3))
  qed
  moreover have "refs_ok (s\<lparr>heap := (heap s)[r := u']\<rparr>)" "logs_ok (s\<lparr>heap := (heap s)[r := u']\<rparr>)"
    using assms(1) by (simp_all add: wf_def refs_ok_def logs_ok_def)
  ultimately show ?thesis by (simp add: wf_def)
qed

lemma toggle_video_cases:
  "fst (toggle_video sid enabled s) = s \<or>
   (\<exists>user b. fst (toggle_video sid enabled s) =
      s\<lparr>heap := (heap s)[user := (heap s ! user)\<lparr>u_is_video_enabled := b\<rparr>]\<rparr>)"
  by (auto simp: toggle_video_def split: option.splits)

lemma toggle_audio_cases:
  "fst (toggle_audio sid enabled s) = s \<or>
   (\<exists>user b. fst (toggle_audio sid enabled s) =
      s\<lparr>heap := (heap s)[user := (heap s ! user)\<lparr>u_is_audio_enabled := b\<rparr>]\<rparr>)"
  by (auto simp: toggle_audio_def split: option.splits)

lemma wf_toggle_video:
  assumes "wf s"
  shows "wf (fst (toggle_video sid enabled s))"
proof -
  have "wf (s\<lparr>heap := (heap s)[user := (heap s ! user)\<lparr>u_is_video_enabled := b\<rparr>]\<rparr>)"
    for user b
    using assms by (rule wf_heap_upd) simp_all
  then show ?thesis using assms toggle_video_cases [of sid enabled s] by auto
qed

lemma wf_toggle_audio:
  assumes "wf s"
  shows "wf (fst (toggle_audio sid enabled s))"
proof -
  have "wf (s\<lparr>heap := (heap s)[user := (heap s ! user)\<lparr>u_is_audio_enabled := b\<rparr>]\<rparr>)"
    for user b
    using assms by (rule wf_heap_upd) simp_all
  then show ?thesis using assms toggle_audio_cases [of sid enabled s] by auto
qed

lemma reachable_wf: "reachable s \<Longrightarrow> wf s"
proof (induction rule: reachable.induct)
  case r_init
  show ?case by (rule wf_init)
next
  case (r_join_user s sid user_id name email now)
  then show ?case by (simp add: wf_join_user)
next
  case (r_create_room s host_user room_data uuid_hex now)
  then show ?case by (simp add: wf_create_room)
next
  case (r_join_room s user room_id joined_now msg_uuid msg_now)
  then show ?case by (simp add: wf_join_room)
next
  case (r_leave_room s user_id msg_uuid msg_now)
  then show ?case by (simp add: wf_leave_room)
next
  case (r_add_message s room_id user_id message_text msg_uuid msg_now)
  then show ?case by (simp add: wf_add_message)
next
  case (r_disconnect s sid msg_uuid msg_now)
  then show ?case by (simp add: wf_disconnect)
next
  case (r_toggle_video s sid enabled)
  then show ?case by (simp add: wf_toggle_video)
next
  case (r_toggle_audio s sid enabled)
  then show ?case by (simp add: wf_toggle_audio)
qed

subsection \<open>Evaluating the concrete runs\<close>

lemmas run_defs = registered3_def created_def joined_def created_zero_def created_left_def
  created_twice_def created_twice_left_def one_room_def two_rooms_def host_left_def
  room_a_def room_b_def room_for_def
  create_room_def join_room_def leave_room_def join_user_def init_manager_def Let_def
  participant_ids_def within_capacity_def

section \<open>Lemmas about the operations\<close>

lemma reachable_registered3: "reachable registered3"
  unfolding registered3_def by (intro reachable.intros)

lemma heap_registered3: "length (heap registered3) = 3"
  by (simp add: registered3_def join_user_def init_manager_def)

lemma reachable_created: "reachable created"
  unfolding created_def
  by (intro reachable.intros reachable_registered3) (simp add: heap_registered3)

lemma heap_created: "length (heap created) = 3"
  by (simp add: created_def create_room_sel heap_registered3)

lemma reachable_joined: "reachable joined"
  unfolding joined_def
  by (intro reachable.intros reachable_created) (simp add: heap_created)

lemma reachable_created_zero: "reachable created_zero"
  unfolding created_zero_def
  by (intro reachable.intros reachable_registered3) (simp add: heap_registered3)

lemma length_heap_join_room:
  "length (heap (snd (join_room rid user joined_now msg_uuid msg_now s))) = length (heap s)"
  by (simp add: join_room_def Let_def split: option.splits)

lemma length_heap_create_room:
  "length (heap (snd (create_room room_data host_user uuid_hex now s))) = length (heap s)"
  by (simp add: create_room_sel)

lemma length_heap_join_user:
  "length (heap (join_user sid user_id name email now s)) = Suc (length (heap s))"
  by (simp add: join_user_sel)

lemma reachable_one_room: "reachable one_room"
  unfolding one_room_def
  by (intro reachable.intros reachable_registered3)
     (simp_all add: heap_registered3 length_heap_join_room length_heap_create_room
        length_heap_join_user)

lemma heap_one_room: "length (heap one_room) = 4"
  by (simp add: one_room_def heap_registered3 length_heap_join_room length_heap_create_room
        length_heap_join_user)

lemma reachable_two_rooms: "reachable two_rooms"
  unfolding two_rooms_def
  by (intro reachable.intros reachable_one_room) (simp add: heap_one_room)

lemma reachable_host_left: "reachable host_left"
  unfolding host_left_def by (intro reachable.intros reachable_two_rooms)

lemma filter_host_first:
  assumes "distinct (map f (p # ps))"
  shows "filter (\<lambda>q. f q \<noteq> f p) (p # ps) = ps"
proof -
  from assms have "f p \<notin> f ` set ps" by simp
  then have "\<forall>q \<in> set ps. f q \<noteq> f p" by (metis imageI)
  then show ?thesis by simp
qed

lemma reachable_created_left: "reachable created_left"
  unfolding created_left_def by (intro reachable.intros reachable_created)

lemma reachable_created_twice: "reachable created_twice"
  unfolding created_twice_def
  by (intro reachable.intros reachable_created) (simp add: heap_created)

lemma reachable_created_twice_left: "reachable created_twice_left"
  unfolding created_twice_left_def by (intro reachable.intros reachable_created_twice)


lemma keep_recent_replicate:
  "keep_recent (replicate (min n 500) x @ [x]) = replicate (min (Suc n) 500) x"
proof (cases "n < 500")
  case True
  then show ?thesis by (simp add: keep_recent_def min_def replicate_append_same)
next
  case False
  then have "min n 500 = 500" "min (Suc n) 500 = 500" by simp_all
  then show ?thesis by (simp add: keep_recent_def replicate_append_same)
qed

lemma reachable_chat: "reachable s \<Longrightarrow> reachable (chat n s)"
  by (induction n) (auto simp: chat_def intro: reachable.intros)

lemma created_registry:
  "find_user (heap created) (users created) ''u1'' = Some (''sid1'', 0)"
  "map_of (users created) ''sid1'' = Some 0"
  "u_name (heap created ! 0) = ''Ann''"
  "u_id (heap created ! 0) = ''u1''"
  "u_id (heap created ! 1) = ''u2''"
  "u_name (heap created ! 1) = ''Bea''"
  by (simp_all add: run_defs find_user_def)

lemma created_room:
  "\<exists>room. rooms created room_a = Some room \<and> r_participants room = [0] \<and>
     r_max_participants room = 2 \<and> r_host_id room = ''u1''"
  by (simp add: run_defs)

lemma chat_created:
  "heap (chat n created) = heap created \<and> users (chat n created) = users created \<and>
   rooms (chat n created) = rooms created \<and>
   room_messages (chat n created) room_a =
     Some (replicate (min n 500)
            \<lparr>m_id = ''m-7'', m_room_id = room_a, m_user_id = ''u1'', m_user_name = ''Ann'',
             m_message = ''hello'', m_timestamp = ''2024-05-01T09:06:00'', m_type = ''text''\<rparr>)"
proof (induction n)
  case 0
  show ?case by (simp add: chat_def) (simp add: run_defs)
next
  case (Suc n)
  let ?s = "chat n created"
  from created_room obtain room where r: "rooms created room_a = Some room" by blast
  have step: "chat (Suc n) created =
      snd (add_message room_a ''u1'' ''hello'' ''m-7'' ''2024-05-01T09:06:00'' ?s)"
    by (simp add: chat_def)
  show ?case
    unfolding step using Suc r created_registry
    by (simp add: add_message_def Let_def keep_recent_replicate)
qed






lemma find_user_None:
  "find_user h us uid = None \<longleftrightarrow> uid \<notin> set (map (\<lambda>(sid, u). u_id (h ! u)) us)"
  by (auto simp: find_user_def find_None_iff)

lemma find_user_Some:
  assumes "find_user h us uid = Some (sid, u)"
  shows "(sid, u) \<in> set us \<and> u_id (h ! u) = uid"
proof -
  from assms obtain i where "i < length us" "us ! i = (sid, u)" "u_id (h ! u) = uid"
    by (auto simp: find_user_def find_Some_iff)
  then show ?thesis by (metis nth_mem)
qed


lemma joined_registry:
  "users joined = [(''sid1'', 0), (''sid2'', 1), (''sid3'', 2)]"
  "registered_ids joined = [''u1'', ''u2'', ''u3'']"
  "u_name (heap joined ! 1) = ''Bea''"
  "u_id (heap joined ! 0) = ''u1''"
  by (simp_all add: run_defs registered_ids_def)

lemma relay_absent:
  assumes "data ''target_user_id'' = Some (JStr t)" and "t \<notin> set (registered_ids s)"
  shows "relay event_name payload_key sid data s = []"
proof -
  have "find (\<lambda>(socket_id, target_user). JStr (u_id (heap s ! target_user)) = JStr t) (users s)
          = find_user (heap s) (users s) t"
    by (simp add: find_user_def)
  also have "\<dots> = None"
    using assms(2) by (simp add: find_user_None registered_ids_def)
  finally show ?thesis
    using assms(1) by (simp add: relay_def split: option.splits)
qed

lemma relay_present:
  assumes "map_of (users s) sid = Some user" and "'''' \<notin> fst ` set (users s)"
    and "data ''target_user_id'' = Some (JStr t)" and "data payload_key = Some payload"
    and "find_user (heap s) (users s) t = Some (tsid, tu)"
  shows "relay event_name payload_key sid data s =
           [\<lparr>e_event = event_name,
             e_data = JObj [(''from_user_id'', JStr (u_id (heap s ! user))), (payload_key, payload)],
             e_room = tsid, e_skip_sid = None\<rparr>]"
proof -
  have f: "find (\<lambda>(socket_id, target_user). JStr (u_id (heap s ! target_user)) = JStr t) (users s)
          = Some (tsid, tu)"
    using assms(5) by (simp add: find_user_def)
  from assms(5) have "(tsid, tu) \<in> set (users s)" using find_user_Some by blast
  then have "fst (tsid, tu) \<in> fst ` set (users s)" by (rule imageI)
  with assms(2) have "tsid \<noteq> []" by (cases "tsid = []") simp_all
  then show ?thesis using assms(1,3,4) f by (simp add: relay_def)
qed

lemma leave_room_returns:
  assumes "wf s"
  shows "\<exists>r. fst (leave_room user_id msg_uuid msg_now s) = Inr r"
proof (cases "user_rooms s user_id")
  case None
  then show ?thesis by (simp add: leave_room_no_entry)
next
  case (Some room_id)
  note ur = Some
  show ?thesis
  proof (cases "rooms s room_id")
    case None
    then show ?thesis using ur by (simp add: leave_room_no_room)
  next
    case (Some room)
    from assms have "logs_ok s" by (simp add: wf_def)
    with Some obtain log where log: "room_messages s room_id = Some log"
      by (auto simp: logs_ok_def)
    let ?ps = "filter (\<lambda>p. u_id (heap s ! p) \<noteq> user_id) (r_participants room)"
    consider (del) "r_host_id room = user_id" "?ps = []"
      | (pro) "r_host_id room = user_id" "?ps \<noteq> []"
      | (mem) "r_host_id room \<noteq> user_id" by blast
    then show ?thesis
    proof cases
      case del
      show ?thesis by (simp add: leave_room_delete [OF ur Some del log])
    next
      case pro
      show ?thesis by (simp add: leave_room_promote [OF ur Some pro(1) refl pro(2) log])
    next
      case mem
      show ?thesis by (simp add: leave_room_member [OF ur Some mem log])
    qed
  qed
qed

lemma disconnect_unregistered:
  "map_of (users s) sid = None \<Longrightarrow> disconnect sid msg_uuid msg_now s = (Inr (), s, [])"
  by (simp add: disconnect_def)

lemma disconnect_removes:
  assumes "wf s"
  shows "\<exists>s' out. disconnect sid msg_uuid msg_now s = (Inr (), s', out) \<and>
           map_of (users s') sid = None"
proof (cases "map_of (users s) sid")
  case None
  then show ?thesis by (simp add: disconnect_unregistered)
next
  case (Some user)
  obtain res s1 where lr: "leave_room (u_id (heap s ! user)) msg_uuid msg_now s = (res, s1)"
    by (cases "leave_room (u_id (heap s ! user)) msg_uuid msg_now s")
  from leave_room_returns [OF assms, of "u_id (heap s ! user)" msg_uuid msg_now]
  obtain r where "res = Inr r" by (auto simp: lr)
  then show ?thesis using Some lr
    by (simp add: disconnect_def Let_def delete_conv)
qed

section \<open>The claims\<close>

subsection \<open>Capacity\<close>

text \<open>
  C1, as stated, fails: \<open>create_room\<close> takes \<open>max_participants\<close> from the request without
  a check, and seats the creator. A room created with \<open>max_participants = 0\<close> holds one
  participant.
\<close>

theorem capacity_counterexample:
  "reachable created_zero \<and>
   map_option r_max_participants (rooms created_zero room_a) = Some 0 \<and>
   map_option r_participants (rooms created_zero room_a) = Some [0] \<and>
   map_option within_capacity (rooms created_zero room_a) = Some False"
  using reachable_created_zero by (simp add: run_defs)

text \<open>
  C1, amended. In every reachable state, a room whose \<open>max_participants\<close> is at least 1
  has at most \<open>max_participants\<close> participants; and \<open>join_room\<close> on a room that is at or
  over its capacity returns \<open>False\<close> and leaves the state as it was.
\<close>

theorem capacity_invariant:
  assumes "reachable s" and "rooms s rid = Some room"
  shows "(1 \<le> r_max_participants room \<longrightarrow> within_capacity room) \<and>
         (r_max_participants room \<le> int (length (r_participants room)) \<longrightarrow>
            join_room rid user joined_now msg_uuid msg_now s = (Inr False, s))"
proof -
  from assms have "room_ok (heap s) room"
    using reachable_wf by (auto simp: wf_def)
  then have "1 \<le> r_max_participants room \<longrightarrow> within_capacity room"
    by (simp add: room_ok_def within_capacity_def)
  moreover have "r_max_participants room \<le> int (length (r_participants room)) \<longrightarrow>
            join_room rid user joined_now msg_uuid msg_now s = (Inr False, s)"
    using assms(2) by (simp add: join_room_full)
  ultimately show ?thesis by simp
qed

theorem capacity_invariant_witness:
  "reachable joined \<and>
   map_option r_max_participants (rooms joined room_a) = Some 2 \<and>
   map_option r_participants (rooms joined room_a) = Some [0, 1] \<and>
   map_option within_capacity (rooms joined room_a) = Some True \<and>
   join_room room_a 2 ''2024-05-01T09:03:00'' ''m-2'' ''2024-05-01T09:03:00'' joined
     = (Inr False, joined)"
proof -
  obtain room where r: "rooms joined room_a = Some room"
    and m: "r_max_participants room = 2" and p: "r_participants room = [0, 1]"
    by (simp add: run_defs)
  show ?thesis
    using reachable_joined r m p
      capacity_invariant [OF reachable_joined r, of 2 "''2024-05-01T09:03:00''" "''m-2''"
        "''2024-05-01T09:03:00''"]
    by simp
qed

subsection \<open>Guards of join\_room\<close>

text \<open>
  C2. In a reachable state \<open>join_room\<close> checks, in this order, that the room exists, that
  it is not full, and that no participant of the room has the user's id; the first guard
  that fails makes it return \<open>False\<close> with the state unchanged. When all three pass it
  returns \<open>True\<close>, and the new state is the old one with the user's \<open>room_id\<close> and
  \<open>joined_at\<close> set, the user appended to the room's participants, the user's entry in
  \<open>user_rooms\<close> set, and one message appended to the room's log: a message of type
  \<open>system\<close> from the user id \<open>system\<close> with the system's display name, whose text is the
  joiner's name followed by the fixed announcement of the source, with the given id and
  timestamp.
\<close>

theorem join_room_guards:
  assumes "reachable s" and "user < length (heap s)"
  shows "(rooms s rid = None \<longrightarrow>
            join_room rid user joined_now msg_uuid msg_now s = (Inr False, s)) \<and>
         (\<forall>room. rooms s rid = Some room \<longrightarrow>
            (r_max_participants room \<le> int (length (r_participants room)) \<longrightarrow>
               join_room rid user joined_now msg_uuid msg_now s = (Inr False, s)) \<and>
            (u_id (heap s ! user) \<in> set (participant_ids (heap s) (r_participants room)) \<longrightarrow>
               join_room rid user joined_now msg_uuid msg_now s = (Inr False, s)) \<and>
            (int (length (r_participants room)) < r_max_participants room \<and>
             u_id (heap s ! user) \<notin> set (participant_ids (heap s) (r_participants room)) \<longrightarrow>
               (\<exists>log s'. room_messages s rid = Some log \<and>
                  join_room rid user joined_now msg_uuid msg_now s = (Inr True, s') \<and>
                  s' = s\<lparr>heap := (heap s)[user := (heap s ! user)\<lparr>u_room_id := Some rid,
                                                             u_joined_at := joined_now\<rparr>],
                         rooms := (rooms s)(rid \<mapsto>
                                    room\<lparr>r_participants := r_participants room @ [user]\<rparr>),
                         user_rooms := (user_rooms s)(u_id (heap s ! user) \<mapsto> rid),
                         room_messages := (room_messages s)(rid \<mapsto> log @
                           [\<lparr>m_id = msg_uuid, m_room_id = rid, m_user_id = ''system'',
                             m_user_name = system_name,
                             m_message = u_name (heap s ! user) @ joined_suffix,
                             m_timestamp = msg_now, m_type = ''system''\<rparr>])\<rparr> \<and>
                  u_room_id (heap s' ! user) = Some rid \<and>
                  u_joined_at (heap s' ! user) = joined_now)))"
proof (intro conjI allI impI)
  assume "rooms s rid = None"
  then show "join_room rid user joined_now msg_uuid msg_now s = (Inr False, s)"
    by (rule join_room_no_room)
next
  fix room assume "rooms s rid = Some room"
    and "r_max_participants room \<le> int (length (r_participants room))"
  then show "join_room rid user joined_now msg_uuid msg_now s = (Inr False, s)"
    by (rule join_room_full)
next
  fix room assume "rooms s rid = Some room"
    and "u_id (heap s ! user) \<in> set (participant_ids (heap s) (r_participants room))"
  then show "join_room rid user joined_now msg_uuid msg_now s = (Inr False, s)"
    by (rule join_room_member)
next
  fix room assume r: "rooms s rid = Some room"
    and g: "int (length (r_participants room)) < r_max_participants room \<and>
            u_id (heap s ! user) \<notin> set (participant_ids (heap s) (r_participants room))"
  from assms(1) have "logs_ok s" using reachable_wf by (auto simp: wf_def)
  with r obtain log where log: "room_messages s rid = Some log"
    by (auto simp: logs_ok_def)
  from g have g1: "int (length (r_participants room)) < r_max_participants room"
    and g2: "u_id (heap s ! user) \<notin> set (participant_ids (heap s) (r_participants room))"
    by simp_all
  note eq = join_room_success [OF r g1 g2 log, of joined_now msg_uuid msg_now]
  show "\<exists>log s'. room_messages s rid = Some log \<and>
          join_room rid user joined_now msg_uuid msg_now s = (Inr True, s') \<and>
          s' = s\<lparr>heap := (heap s)[user := (heap s ! user)\<lparr>u_room_id := Some rid,
                                                     u_joined_at := joined_now\<rparr>],
                 rooms := (rooms s)(rid \<mapsto>
                            room\<lparr>r_participants := r_participants room @ [user]\<rparr>),
                 user_rooms := (user_rooms s)(u_id (heap s ! user) \<mapsto> rid),
                 room_messages := (room_messages s)(rid \<mapsto> log @
                   [\<lparr>m_id = msg_uuid, m_room_id = rid, m_user_id = ''system'',
                     m_user_name = system_name,
                     m_message = u_name (heap s ! user) @ joined_suffix,
                     m_timestamp = msg_now, m_type = ''system''\<rparr>])\<rparr> \<and>
          u_room_id (heap s' ! user) = Some rid \<and>
          u_joined_at (heap s' ! user) = joined_now"
    using log eq assms(2) by (simp add: system_message_def)
qed

theorem join_room_guards_witness:
  "reachable created \<and> reachable joined \<and>
   join_room ''room_00000000'' 1 ''2024-05-01T09:02:00'' ''m-1'' ''2024-05-01T09:02:00'' created
     = (Inr False, created) \<and>
   join_room room_a 2 ''2024-05-01T09:03:00'' ''m-2'' ''2024-05-01T09:03:00'' joined
     = (Inr False, joined) \<and>
   join_room room_a 0 ''2024-05-01T09:02:00'' ''m-1'' ''2024-05-01T09:02:00'' created
     = (Inr False, created) \<and>
   join_room room_a 1 ''2024-05-01T09:02:00'' ''m-1'' ''2024-05-01T09:02:00'' created
     = (Inr True, joined) \<and>
   u_room_id (heap joined ! 1) = Some room_a \<and>
   u_joined_at (heap joined ! 1) = ''2024-05-01T09:02:00'' \<and>
   map_option r_participants (rooms joined room_a) = Some [0, 1] \<and>
   room_messages created room_a = Some [] \<and>
   room_messages joined room_a =
     Some [\<lparr>m_id = ''m-1'', m_room_id = ''room_0a1b2c3d'', m_user_id = ''system'',
            m_user_name = [CHR 0xEC, CHR 0x8B, CHR 0x9C, CHR 0xEC, CHR 0x8A, CHR 0xA4,
                           CHR 0xED, CHR 0x85, CHR 0x9C],
            m_message = ''Bea'' @
              [CHR 0xEB, CHR 0x8B, CHR 0x98, CHR 0xEC, CHR 0x9D, CHR 0xB4, CHR 0x20,
               CHR 0xEC, CHR 0xB0, CHR 0xB8, CHR 0xEC, CHR 0x97, CHR 0xAC,
               CHR 0xED, CHR 0x96, CHR 0x88, CHR 0xEC, CHR 0x8A, CHR 0xB5,
               CHR 0xEB, CHR 0x8B, CHR 0x88, CHR 0xEB, CHR 0x8B, CHR 0xA4, CHR 0x2E],
            m_timestamp = ''2024-05-01T09:02:00'', m_type = ''system''\<rparr>]"
proof -
  have n: "rooms created ''room_00000000'' = None"
    by (simp add: run_defs)
  obtain r1 where r1: "rooms created room_a = Some r1"
    and m1: "r_max_participants r1 = 2" and p1: "r_participants r1 = [0]"
    by (simp add: run_defs)
  obtain r2 where r2: "rooms joined room_a = Some r2"
    and m2: "r_max_participants r2 = 2" and p2: "r_participants r2 = [0, 1]"
    by (simp add: run_defs)
  have ids: "u_id (heap created ! 0) = ''u1''" "u_id (heap created ! 1) = ''u2''"
    by (simp_all add: run_defs)
  have l1: "(1::nat) < length (heap created)" and l0: "(0::nat) < length (heap created)"
    by (simp_all add: heap_created)
  have l2: "(2::nat) < length (heap joined)"
    by (simp add: run_defs)
  have a: "join_room ''room_00000000'' 1 ''2024-05-01T09:02:00'' ''m-1'' ''2024-05-01T09:02:00''
             created = (Inr False, created)"
    using join_room_guards [OF reachable_created l1, of "''room_00000000''"] n by simp
  have b: "join_room room_a 2 ''2024-05-01T09:03:00'' ''m-2'' ''2024-05-01T09:03:00'' joined
             = (Inr False, joined)"
    using join_room_guards [OF reachable_joined l2, of room_a] r2 m2 p2 by simp
  have c: "join_room room_a 0 ''2024-05-01T09:02:00'' ''m-1'' ''2024-05-01T09:02:00'' created
             = (Inr False, created)"
    using join_room_guards [OF reachable_created l0, of room_a] r1 p1 ids
    by (simp add: participant_ids_def)
  have d: "join_room room_a 1 ''2024-05-01T09:02:00'' ''m-1'' ''2024-05-01T09:02:00'' created
             = (Inr True, joined) \<and>
           u_room_id (heap joined ! 1) = Some room_a \<and>
           u_joined_at (heap joined ! 1) = ''2024-05-01T09:02:00''"
    using join_room_guards [OF reachable_created l1, of room_a "''2024-05-01T09:02:00''"
        "''m-1''" "''2024-05-01T09:02:00''"] r1 m1 p1 ids
    by (auto simp add: participant_ids_def joined_def)
  have l: "room_messages created room_a = Some []"
    by (simp add: run_defs)
  have nm: "u_name (heap created ! 1) = ''Bea''"
    by (simp add: run_defs)
  obtain log s' where lg: "room_messages created room_a = Some log"
    and jr: "join_room room_a 1 ''2024-05-01T09:02:00'' ''m-1'' ''2024-05-01T09:02:00'' created
               = (Inr True, s')"
    and rm: "room_messages s' room_a =
       Some (log @ [\<lparr>m_id = ''m-1'', m_room_id = room_a, m_user_id = ''system'',
                     m_user_name = system_name, m_message = ''Bea'' @ joined_suffix,
                     m_timestamp = ''2024-05-01T09:02:00'', m_type = ''system''\<rparr>])"
    using join_room_guards [OF reachable_created l1, of room_a "''2024-05-01T09:02:00''"
        "''m-1''" "''2024-05-01T09:02:00''"] r1 m1 p1 ids nm
    by (auto simp add: participant_ids_def)
  have e: "room_messages joined room_a =
     Some [\<lparr>m_id = ''m-1'', m_room_id = room_a, m_user_id = ''system'',
            m_user_name = system_name, m_message = ''Bea'' @ joined_suffix,
            m_timestamp = ''2024-05-01T09:02:00'', m_type = ''system''\<rparr>]"
    using lg l jr rm by (simp add: joined_def)
  show ?thesis
    using reachable_created reachable_joined a b c d e l r2 p2
    by (simp add: system_name_def joined_suffix_def room_a_def)
qed

subsection \<open>The host\<close>

text \<open>
  What holds of the host in every reachable state: every room has participants and its
  \<open>host_id\<close> is the id of one of them. When the host of a room of two or more leaves
  through \<open>leave_room\<close>, the room keeps the other participants in their order, its new
  \<open>host_id\<close> is the id of the first of them, that participant's role is \<open>host\<close>, and the
  new host is again a member.
\<close>

lemma host_invariant:
  assumes "reachable s" and "rooms s rid = Some room"
  shows "r_participants room \<noteq> [] \<and>
         r_host_id room \<in> set (participant_ids (heap s) (r_participants room)) \<and>
         (user_rooms s uid = Some rid \<and> r_host_id room = uid \<and>
          2 \<le> length (r_participants room) \<longrightarrow>
            (\<exists>room'. fst (leave_room uid msg_uuid msg_now s) = Inr (Some rid) \<and>
               rooms (snd (leave_room uid msg_uuid msg_now s)) rid = Some room' \<and>
               r_participants room' = tl (r_participants room) \<and>
               r_host_id room' = u_id (heap s ! hd (tl (r_participants room))) \<and>
               r_host_id room' \<in> set (participant_ids (heap (snd (leave_room uid msg_uuid msg_now s)))
                                       (r_participants room')) \<and>
               u_role (heap (snd (leave_room uid msg_uuid msg_now s)) ! hd (tl (r_participants room)))
                 = ''host''))"
proof -
  from assms have w: "wf s" and ok: "room_ok (heap s) room"
    using reachable_wf by (auto simp: wf_def)
  from ok obtain p ps where pps: "r_participants room = p # ps"
    by (cases "r_participants room") (auto simp: room_ok_def)
  from ok pps have hp: "u_id (heap s ! p) = r_host_id room"
    and dist: "distinct (map (\<lambda>q. u_id (heap s ! q)) (p # ps))"
    by (auto simp: room_ok_def participant_ids_def)
  have mem: "r_host_id room \<in> set (participant_ids (heap s) (r_participants room))"
    using pps hp by (auto simp: participant_ids_def)
  have succ: "\<exists>room'. fst (leave_room uid msg_uuid msg_now s) = Inr (Some rid) \<and>
               rooms (snd (leave_room uid msg_uuid msg_now s)) rid = Some room' \<and>
               r_participants room' = tl (r_participants room) \<and>
               r_host_id room' = u_id (heap s ! hd (tl (r_participants room))) \<and>
               r_host_id room' \<in> set (participant_ids (heap (snd (leave_room uid msg_uuid msg_now s)))
                                       (r_participants room')) \<and>
               u_role (heap (snd (leave_room uid msg_uuid msg_now s)) ! hd (tl (r_participants room)))
                 = ''host''"
    if ur: "user_rooms s uid = Some rid" and h: "r_host_id room = uid"
      and two: "2 \<le> length (r_participants room)"
  proof -
    from two pps have ne: "ps \<noteq> []" by auto
    have flt: "filter (\<lambda>q. u_id (heap s ! q) \<noteq> uid) (r_participants room) = ps"
      using filter_host_first [OF dist] hp h pps by simp
    from w assms(2) obtain log where log: "room_messages s rid = Some log"
      by (auto simp: wf_def logs_ok_def)
    from w assms(2) pps ne have lt: "hd ps < length (heap s)"
      by (auto simp: wf_def refs_ok_def)
    note eq = leave_room_promote [OF ur assms(2) h flt ne log, of msg_uuid msg_now]
    have "participant_ids ((heap s)[hd ps := (heap s ! hd ps)\<lparr>u_role := ''host''\<rparr>]) ps
            = participant_ids (heap s) ps"
      by (rule participant_ids_upd) simp
    moreover have "u_id (heap s ! hd ps) \<in> set (participant_ids (heap s) ps)"
      using ne by (simp add: participant_ids_def)
    ultimately show ?thesis using eq pps ne lt
      by simp
  qed
  from ok mem succ show ?thesis by (auto simp: room_ok_def)
qed

text \<open>
  C3. The member that \<open>leave_room\<close> promotes is \<open>participants[0]\<close>, and that is not always
  the remaining member with the earliest \<open>joined_at\<close>. \<open>join_room\<close> does not take a user out
  of the room it is in, and it writes \<open>joined_at\<close> on the \<open>User\<close> object that the first
  room shares. Below, \<open>u2\<close> (object 1) and \<open>u3\<close> (object 2) join the room of \<open>u1\<close> at
  09:02 and 09:03, so that their \<open>joined_at\<close> is in list order; then \<open>u2\<close> joins a second
  room at 09:04 and stays listed in the first. When the host \<open>u1\<close> leaves, the new host is
  \<open>u2\<close>, whose \<open>joined_at\<close> is now later than that of the other remaining member.
\<close>

theorem host_successor_not_earliest_joined_at:
  "reachable one_room \<and>
   map_option r_participants (rooms one_room room_a) = Some [0, 1, 2] \<and>
   u_joined_at (heap one_room ! 1) = ''2024-05-01T09:02:00'' \<and>
   u_joined_at (heap one_room ! 2) = ''2024-05-01T09:03:00'' \<and>
   u_joined_at (heap one_room ! 1) < u_joined_at (heap one_room ! 2) \<and>
   fst (join_room room_b 1 ''2024-05-01T09:04:00'' ''m-5'' ''2024-05-01T09:04:00'' one_room)
     = Inr True \<and>
   reachable two_rooms \<and>
   map_option r_participants (rooms two_rooms room_a) = Some [0, 1, 2] \<and>
   map_option r_participants (rooms two_rooms room_b) = Some [3, 1] \<and>
   user_rooms two_rooms ''u1'' = Some room_a \<and>
   map_option r_host_id (rooms two_rooms room_a) = Some ''u1'' \<and>
   fst (leave_room ''u1'' ''m-6'' ''2024-05-01T09:05:00'' two_rooms) = Inr (Some room_a) \<and>
   reachable host_left \<and>
   map_option r_participants (rooms host_left room_a) = Some [1, 2] \<and>
   map_option r_host_id (rooms host_left room_a) = Some ''u2'' \<and>
   u_id (heap host_left ! 1) = ''u2'' \<and>
   u_role (heap host_left ! 1) = ''host'' \<and>
   u_joined_at (heap host_left ! 1) = ''2024-05-01T09:04:00'' \<and>
   u_joined_at (heap host_left ! 2) = ''2024-05-01T09:03:00'' \<and>
   u_joined_at (heap host_left ! 2) < u_joined_at (heap host_left ! 1)"
  using reachable_one_room reachable_two_rooms reachable_host_left by (simp add: run_defs)

subsection \<open>The bound of the message log\<close>

text \<open>
  C4. The cap of 500 is applied by \<open>add_message\<close> only. \<open>join_room\<close> (and \<open>leave_room\<close>)
  append their system message to the log without it: after 500 chat messages the log
  holds 500 entries, and the next \<open>join_room\<close> succeeds and leaves 501.
\<close>

theorem log_exceeds_cap_after_join:
  "reachable (chat 500 created) \<and>
   map_option length (room_messages (chat 500 created) room_a) = Some 500 \<and>
   fst (join_room room_a 1 ''2024-05-01T09:07:00'' ''m-8'' ''2024-05-01T09:07:00''
          (chat 500 created)) = Inr True \<and>
   reachable (snd (join_room room_a 1 ''2024-05-01T09:07:00'' ''m-8'' ''2024-05-01T09:07:00''
          (chat 500 created))) \<and>
   map_option length
     (room_messages
        (snd (join_room room_a 1 ''2024-05-01T09:07:00'' ''m-8'' ''2024-05-01T09:07:00''
               (chat 500 created))) room_a) = Some 501"
proof -
  let ?s = "chat 500 created"
  from created_room obtain room where r: "rooms created room_a = Some room"
    and p: "r_participants room = [0]" and m: "r_max_participants room = 2" by blast
  note c = chat_created [of 500]
  have rs: "rooms ?s room_a = Some room" using c r by simp
  have g1: "int (length (r_participants room)) < r_max_participants room"
    using p m by simp
  have g2: "u_id (heap ?s ! 1) \<notin> set (participant_ids (heap ?s) (r_participants room))"
    using c p created_registry by (simp add: participant_ids_def)
  have log: "room_messages ?s room_a =
     Some (replicate 500
            \<lparr>m_id = ''m-7'', m_room_id = room_a, m_user_id = ''u1'', m_user_name = ''Ann'',
             m_message = ''hello'', m_timestamp = ''2024-05-01T09:06:00'', m_type = ''text''\<rparr>)"
    using c by simp
  note eq = join_room_success [OF rs g1 g2 log, of "''2024-05-01T09:07:00''" "''m-8''"
      "''2024-05-01T09:07:00''"]
  have rc: "reachable ?s" using reachable_created by (rule reachable_chat)
  have lt: "1 < length (heap ?s)" using c by (simp add: heap_created)
  have "reachable (snd (join_room room_a 1 ''2024-05-01T09:07:00'' ''m-8'' ''2024-05-01T09:07:00'' ?s))"
    using rc lt by (rule reachable.intros)
  then show ?thesis using rc log eq by simp
qed

subsection \<open>One room per participant\<close>

text \<open>
  C5. The code breaks the invariant in both directions. \<open>leave_room\<close> does not reset
  \<open>room_id\<close>: after the only member of a room has left, no room is left at all, and the
  \<open>room_id\<close> of that user still names the deleted room. And \<open>create_room\<close> (like
  \<open>join_room\<close> for another room) does not take the user out of the room it is in: after
  a second \<open>create_room\<close> the same user is in the participant lists of two rooms.
\<close>

theorem room_id_not_exactly_one_room:
  "reachable created_left \<and>
   u_room_id (heap created_left ! 0) = Some room_a \<and>
   rooms created_left = Map.empty \<and>
   reachable created_twice \<and>
   u_room_id (heap created_twice ! 0) = Some room_b \<and>
   map_option r_participants (rooms created_twice room_a) = Some [0] \<and>
   map_option r_participants (rooms created_twice room_b) = Some [0]"
  using reachable_created_left reachable_created_twice by (simp add: run_defs)

subsection \<open>leave\_room\<close>

text \<open>
  What \<open>leave_room\<close> does in a reachable state, in terms of the manager's own records. It
  returns \<open>None\<close> and changes nothing when \<open>user_rooms\<close> has no entry for the user id, or the
  entry names no room. Otherwise it returns the room id, removes the entry from
  \<open>user_rooms\<close> and every participant with that id from the room's list; when no participant
  is left, the room and its log are deleted; when the room survives, one message is
  appended to its log: a message of type \<open>system\<close> from the user id \<open>system\<close>, whose text is
  the name of the first registered user with that id (or the default name) followed by
  the fixed announcement of the source.
\<close>

lemma leave_room_effect:
  assumes "reachable s"
  shows "(user_rooms s uid = None \<longrightarrow> leave_room uid msg_uuid msg_now s = (Inr None, s)) \<and>
         (\<forall>rid. user_rooms s uid = Some rid \<and> rooms s rid = None \<longrightarrow>
            leave_room uid msg_uuid msg_now s = (Inr None, s)) \<and>
         (\<forall>rid room. user_rooms s uid = Some rid \<and> rooms s rid = Some room \<longrightarrow>
            fst (leave_room uid msg_uuid msg_now s) = Inr (Some rid) \<and>
            user_rooms (snd (leave_room uid msg_uuid msg_now s)) uid = None \<and>
            (filter (\<lambda>p. u_id (heap s ! p) \<noteq> uid) (r_participants room) = [] \<longrightarrow>
               rooms (snd (leave_room uid msg_uuid msg_now s)) rid = None \<and>
               room_messages (snd (leave_room uid msg_uuid msg_now s)) rid = None) \<and>
            (filter (\<lambda>p. u_id (heap s ! p) \<noteq> uid) (r_participants room) \<noteq> [] \<longrightarrow>
               map_option r_participants (rooms (snd (leave_room uid msg_uuid msg_now s)) rid)
                 = Some (filter (\<lambda>p. u_id (heap s ! p) \<noteq> uid) (r_participants room)) \<and>
               (\<exists>log. room_messages s rid = Some log \<and>
                  room_messages (snd (leave_room uid msg_uuid msg_now s)) rid =
                    Some (log @
                      [\<lparr>m_id = msg_uuid, m_room_id = rid, m_user_id = ''system'',
                        m_user_name = system_name,
                        m_message = name_of_user (heap s) (users s) uid @ left_suffix,
                        m_timestamp = msg_now, m_type = ''system''\<rparr>]))))"
proof (intro conjI allI impI)
  assume "user_rooms s uid = None"
  then show "leave_room uid msg_uuid msg_now s = (Inr None, s)"
    by (rule leave_room_no_entry)
next
  fix rid assume "user_rooms s uid = Some rid \<and> rooms s rid = None"
  then show "leave_room uid msg_uuid msg_now s = (Inr None, s)"
    by (simp add: leave_room_no_room)
next
  fix rid room
  assume a: "user_rooms s uid = Some rid \<and> rooms s rid = Some room"
  then have ur: "user_rooms s uid = Some rid" and r: "rooms s rid = Some room" by simp_all
  let ?ps = "filter (\<lambda>p. u_id (heap s ! p) \<noteq> uid) (r_participants room)"
  let ?s' = "snd (leave_room uid msg_uuid msg_now s)"
  let ?m = "\<lparr>m_id = msg_uuid, m_room_id = rid, m_user_id = ''system'',
              m_user_name = system_name,
              m_message = name_of_user (heap s) (users s) uid @ left_suffix,
              m_timestamp = msg_now, m_type = ''system''\<rparr>"
  from assms r have w: "wf s" and ok: "room_ok (heap s) room"
    using reachable_wf by (auto simp: wf_def)
  from w have "logs_ok s" by (simp add: wf_def)
  with r obtain log where log: "room_messages s rid = Some log"
    by (auto simp: logs_ok_def)
  have host_stays: "?ps \<noteq> []" if "r_host_id room \<noteq> uid"
    using room_ok_filter_member [OF ok that] by (simp add: room_ok_def)
  consider (del) "r_host_id room = uid" "?ps = []"
    | (pro) "r_host_id room = uid" "?ps \<noteq> []"
    | (mem) "r_host_id room \<noteq> uid" "?ps \<noteq> []"
    using host_stays by blast
  then have "fst (leave_room uid msg_uuid msg_now s) = Inr (Some rid) \<and>
      user_rooms ?s' uid = None \<and>
      (?ps = [] \<longrightarrow> rooms ?s' rid = None \<and> room_messages ?s' rid = None) \<and>
      (?ps \<noteq> [] \<longrightarrow>
         map_option r_participants (rooms ?s' rid) = Some ?ps \<and>
         (\<exists>log. room_messages s rid = Some log \<and>
            room_messages ?s' rid = Some (log @ [?m])))"
  proof cases
    case del
    show ?thesis
      using del(2) log by (simp add: leave_room_delete [OF ur r del log])
  next
    case pro
    show ?thesis
      using pro(2) log
      by (simp add: leave_room_promote [OF ur r pro(1) refl pro(2) log] system_message_def)
  next
    case mem
    show ?thesis
      using mem(2) log
      by (simp add: leave_room_member [OF ur r mem(1) log] system_message_def)
  qed
  then show "fst (leave_room uid msg_uuid msg_now s) = Inr (Some rid)"
    and "user_rooms ?s' uid = None"
    and "?ps = [] \<Longrightarrow> rooms ?s' rid = None"
    and "?ps = [] \<Longrightarrow> room_messages ?s' rid = None"
    and "?ps \<noteq> [] \<Longrightarrow> map_option r_participants (rooms ?s' rid) = Some ?ps"
    and "?ps \<noteq> [] \<Longrightarrow> \<exists>log. room_messages s rid = Some log \<and>
            room_messages ?s' rid = Some (log @ [?m])"
    by simp_all
qed

text \<open>
  C6. \<open>leave_room\<close> finds the user's room through \<open>user_rooms\<close>, which holds one room per
  user id, and \<open>create_room\<close> and \<open>join_room\<close> overwrite that entry without taking the user
  out of the room it is in. Below, \<open>u1\<close> creates two rooms; the first \<open>leave_room\<close> takes it
  out of the second room and removes the entry. After that \<open>u1\<close> is still the only
  participant and the host of the first room, and \<open>leave_room\<close> returns \<open>None\<close> and changes
  nothing: the user is in a room and is not removed from its participant list, and the
  room is never emptied or deleted.
\<close>

theorem leave_room_misses_member:
  "reachable created_twice \<and>
   map_option r_participants (rooms created_twice room_a) = Some [0] \<and>
   map_option r_participants (rooms created_twice room_b) = Some [0] \<and>
   fst (leave_room ''u1'' ''m-13'' ''2024-05-01T09:04:00'' created_twice) = Inr (Some room_b) \<and>
   reachable created_twice_left \<and>
   rooms created_twice_left room_b = None \<and>
   map_option r_participants (rooms created_twice_left room_a) = Some [0] \<and>
   map_option r_host_id (rooms created_twice_left room_a) = Some ''u1'' \<and>
   map_of (users created_twice_left) ''sid1'' = Some 0 \<and>
   u_id (heap created_twice_left ! 0) = ''u1'' \<and>
   leave_room ''u1'' ''m-14'' ''2024-05-01T09:05:00'' created_twice_left
     = (Inr None, created_twice_left)"
proof -
  have n: "user_rooms created_twice_left ''u1'' = None"
    by (simp add: run_defs)
  have "leave_room ''u1'' ''m-14'' ''2024-05-01T09:05:00'' created_twice_left
          = (Inr None, created_twice_left)"
    using n by (rule leave_room_no_entry)
  then show ?thesis
    using reachable_created_twice reachable_created_twice_left by (simp add: run_defs)
qed

subsection \<open>add\_message\<close>



subsection \<open>Signaling relay\<close>

text \<open>
  C8. A registered sender sends \<open>webrtc_offer\<close>, \<open>webrtc_answer\<close> or
  \<open>webrtc_ice_candidate\<close> with a target user id, in a registry that has no connection
  with the empty socket id. When no connected user has that id, nothing is sent to anybody
  (no event, no \<open>error\<close>). When one has, exactly one event is sent: it has the name of the
  event received, it goes to the connection of the first registered user with that id, and
  it carries \<open>from_user_id\<close>, the sender's id, and the payload.
\<close>

theorem signaling_best_effort:
  assumes "map_of (users s) sid = Some user" and "'''' \<notin> fst ` set (users s)"
    and "data ''target_user_id'' = Some (JStr t)"
  shows "(t \<notin> set (registered_ids s) \<longrightarrow>
            webrtc_offer sid data s = [] \<and> webrtc_answer sid data s = [] \<and>
            webrtc_ice_candidate sid data s = []) \<and>
         (t \<in> set (registered_ids s) \<longrightarrow>
            (\<exists>tsid tu. find_user (heap s) (users s) t = Some (tsid, tu) \<and>
               (tsid, tu) \<in> set (users s) \<and> u_id (heap s ! tu) = t \<and>
               (\<forall>offer. data ''offer'' = Some offer \<longrightarrow>
                  webrtc_offer sid data s =
                    [\<lparr>e_event = ''webrtc_offer'',
                      e_data = JObj [(''from_user_id'', JStr (u_id (heap s ! user))),
                                     (''offer'', offer)],
                      e_room = tsid, e_skip_sid = None\<rparr>]) \<and>
               (\<forall>answer. data ''answer'' = Some answer \<longrightarrow>
                  webrtc_answer sid data s =
                    [\<lparr>e_event = ''webrtc_answer'',
                      e_data = JObj [(''from_user_id'', JStr (u_id (heap s ! user))),
                                     (''answer'', answer)],
                      e_room = tsid, e_skip_sid = None\<rparr>]) \<and>
               (\<forall>candidate. data ''candidate'' = Some candidate \<longrightarrow>
                  webrtc_ice_candidate sid data s =
                    [\<lparr>e_event = ''webrtc_ice_candidate'',
                      e_data = JObj [(''from_user_id'', JStr (u_id (heap s ! user))),
                                     (''candidate'', candidate)],
                      e_room = tsid, e_skip_sid = None\<rparr>])))"
proof (intro conjI impI)
  assume "t \<notin> set (registered_ids s)"
  then show "webrtc_offer sid data s = []" "webrtc_answer sid data s = []"
    "webrtc_ice_candidate sid data s = []"
    using assms(3)
    by (simp_all add: webrtc_offer_def webrtc_answer_def webrtc_ice_candidate_def relay_absent)
next
  assume "t \<in> set (registered_ids s)"
  then have "find_user (heap s) (users s) t \<noteq> None"
    by (simp add: find_user_None registered_ids_def)
  then obtain tsid tu where f: "find_user (heap s) (users s) t = Some (tsid, tu)"
    by auto
  then have "(tsid, tu) \<in> set (users s)" "u_id (heap s ! tu) = t"
    using find_user_Some by blast+
  then show "\<exists>tsid tu. find_user (heap s) (users s) t = Some (tsid, tu) \<and>
               (tsid, tu) \<in> set (users s) \<and> u_id (heap s ! tu) = t \<and>
               (\<forall>offer. data ''offer'' = Some offer \<longrightarrow>
                  webrtc_offer sid data s =
                    [\<lparr>e_event = ''webrtc_offer'',
                      e_data = JObj [(''from_user_id'', JStr (u_id (heap s ! user))),
                                     (''offer'', offer)],
                      e_room = tsid, e_skip_sid = None\<rparr>]) \<and>
               (\<forall>answer. data ''answer'' = Some answer \<longrightarrow>
                  webrtc_answer sid data s =
                    [\<lparr>e_event = ''webrtc_answer'',
                      e_data = JObj [(''from_user_id'', JStr (u_id (heap s ! user))),
                                     (''answer'', answer)],
                      e_room = tsid, e_skip_sid = None\<rparr>]) \<and>
               (\<forall>candidate. data ''candidate'' = Some candidate \<longrightarrow>
                  webrtc_ice_candidate sid data s =
                    [\<lparr>e_event = ''webrtc_ice_candidate'',
                      e_data = JObj [(''from_user_id'', JStr (u_id (heap s ! user))),
                                     (''candidate'', candidate)],
                      e_room = tsid, e_skip_sid = None\<rparr>])"
    using f relay_present [where s = s and sid = sid and data = data, OF assms(1,2,3) _ f]
    by (auto simp: webrtc_offer_def webrtc_answer_def webrtc_ice_candidate_def)
qed

theorem signaling_best_effort_witness:
  "map_of (users joined) ''sid1'' = Some 0 \<and> '''' \<notin> fst ` set (users joined) \<and>
   ''u9'' \<notin> set (registered_ids joined) \<and> ''u2'' \<in> set (registered_ids joined) \<and>
   webrtc_offer ''sid1'' (signal_to ''u9'') joined = [] \<and>
   webrtc_answer ''sid1'' (signal_to ''u9'') joined = [] \<and>
   webrtc_ice_candidate ''sid1'' (signal_to ''u9'') joined = [] \<and>
   webrtc_offer ''sid1'' (signal_to ''u2'') joined =
     [\<lparr>e_event = ''webrtc_offer'',
       e_data = JObj [(''from_user_id'', JStr ''u1''), (''offer'', JStr ''sdp-offer'')],
       e_room = ''sid2'', e_skip_sid = None\<rparr>] \<and>
   webrtc_answer ''sid1'' (signal_to ''u2'') joined =
     [\<lparr>e_event = ''webrtc_answer'',
       e_data = JObj [(''from_user_id'', JStr ''u1''), (''answer'', JStr ''sdp-answer'')],
       e_room = ''sid2'', e_skip_sid = None\<rparr>] \<and>
   webrtc_ice_candidate ''sid1'' (signal_to ''u2'') joined =
     [\<lparr>e_event = ''webrtc_ice_candidate'',
       e_data = JObj [(''from_user_id'', JStr ''u1''), (''candidate'', JStr ''ice-candidate'')],
       e_room = ''sid2'', e_skip_sid = None\<rparr>]"
proof -
  have u: "map_of (users joined) ''sid1'' = Some 0"
    and e: "'''' \<notin> fst ` set (users joined)"
    by (simp_all add: joined_registry)
  have f: "find_user (heap joined) (users joined) ''u2'' = Some (''sid2'', 1)"
    by (simp add: find_user_def joined_registry) (simp add: run_defs)
  have t9: "signal_to ''u9'' ''target_user_id'' = Some (JStr ''u9'')"
    and t2: "signal_to ''u2'' ''target_user_id'' = Some (JStr ''u2'')"
    and p: "signal_to ''u2'' ''offer'' = Some (JStr ''sdp-offer'')"
      "signal_to ''u2'' ''answer'' = Some (JStr ''sdp-answer'')"
      "signal_to ''u2'' ''candidate'' = Some (JStr ''ice-candidate'')"
    by (simp_all add: signal_to_def)
  show ?thesis
    using u e f p
      signaling_best_effort [where data = "signal_to ''u9''" and s = joined, OF u e t9]
      signaling_best_effort [where data = "signal_to ''u2''" and s = joined, OF u e t2]
    by (simp add: joined_registry)
qed

subsection \<open>Disconnect\<close>

text \<open>
  C9. A disconnect for a socket id that has no entry in the registry returns without an
  exception, changes nothing and sends nothing. In a reachable state a disconnect returns
  without an exception and leaves the socket id without an entry, so a second disconnect
  for the same socket id sends nothing and leaves the state of the first.
\<close>

theorem disconnect_idempotent:
  assumes "reachable s"
  shows "(map_of (users s) sid = None \<longrightarrow>
            disconnect sid msg_uuid msg_now s = (Inr (), s, [])) \<and>
         (\<exists>s' out. disconnect sid msg_uuid msg_now s = (Inr (), s', out) \<and>
            map_of (users s') sid = None \<and>
            disconnect sid msg_uuid' msg_now' s' = (Inr (), s', []))"
proof -
  from assms have "wf s" by (rule reachable_wf)
  then obtain s' out where d: "disconnect sid msg_uuid msg_now s = (Inr (), s', out)"
    and n: "map_of (users s') sid = None"
    using disconnect_removes by blast
  from n have "disconnect sid msg_uuid' msg_now' s' = (Inr (), s', [])"
    by (rule disconnect_unregistered)
  with d n have "\<exists>s' out. disconnect sid msg_uuid msg_now s = (Inr (), s', out) \<and>
            map_of (users s') sid = None \<and>
            disconnect sid msg_uuid' msg_now' s' = (Inr (), s', [])"
    by blast
  moreover have "map_of (users s) sid = None \<longrightarrow>
            disconnect sid msg_uuid msg_now s = (Inr (), s, [])"
    by (simp add: disconnect_unregistered)
  ultimately show ?thesis by blast
qed

theorem disconnect_idempotent_witness:
  "reachable joined \<and>
   map_of (users joined) ''sid9'' = None \<and>
   disconnect ''sid9'' ''m-11'' ''2024-05-01T09:10:00'' joined = (Inr (), joined, []) \<and>
   map_of (users joined) ''sid2'' = Some 1 \<and>
   fst (disconnect ''sid2'' ''m-11'' ''2024-05-01T09:10:00'' joined) = Inr () \<and>
   map e_event (snd (snd (disconnect ''sid2'' ''m-11'' ''2024-05-01T09:10:00'' joined)))
     = [''participant_left'', ''participants_updated''] \<and>
   disconnect ''sid2'' ''m-12'' ''2024-05-01T09:11:00''
       (fst (snd (disconnect ''sid2'' ''m-11'' ''2024-05-01T09:10:00'' joined)))
     = (Inr (), fst (snd (disconnect ''sid2'' ''m-11'' ''2024-05-01T09:10:00'' joined)), [])"
proof -
  have n: "map_of (users joined) ''sid9'' = None"
    and u: "map_of (users joined) ''sid2'' = Some 1"
    by (simp_all add: joined_registry)
  have a: "disconnect ''sid9'' ''m-11'' ''2024-05-01T09:10:00'' joined = (Inr (), joined, [])"
    using disconnect_idempotent [OF reachable_joined, of "''sid9''" "''m-11''"
        "''2024-05-01T09:10:00''"] n by simp
  have b: "fst (disconnect ''sid2'' ''m-11'' ''2024-05-01T09:10:00'' joined) = Inr () \<and>
     disconnect ''sid2'' ''m-12'' ''2024-05-01T09:11:00''
       (fst (snd (disconnect ''sid2'' ''m-11'' ''2024-05-01T09:10:00'' joined)))
     = (Inr (), fst (snd (disconnect ''sid2'' ''m-11'' ''2024-05-01T09:10:00'' joined)), [])"
    using disconnect_idempotent [OF reachable_joined, of "''sid2''" "''m-11''"
        "''2024-05-01T09:10:00''" "''m-12''" "''2024-05-01T09:11:00''"]
    by auto
  have c: "map e_event (snd (snd (disconnect ''sid2'' ''m-11'' ''2024-05-01T09:10:00'' joined)))
     = [''participant_left'', ''participants_updated'']"
    by (simp add: disconnect_def joined_registry) (simp add: run_defs)
  show ?thesis using reachable_joined n u a b c by simp
qed

subsection \<open>The host is the first participant\<close>

text \<open>
  C10. In every reachable state, every room has a first participant, that participant's
  id is the room's \<open>host_id\<close> and its role is \<open>host\<close>; the \<open>host_name\<close> that the room
  listing reports is the name of that participant.
\<close>

theorem host_is_first_participant:
  assumes "reachable s" and "rooms s rid = Some room"
  shows "\<exists>p ps. r_participants room = p # ps \<and> u_id (heap s ! p) = r_host_id room \<and>
           u_role (heap s ! p) = ''host'' \<and> host_name s room = u_name (heap s ! p)"
proof -
  from assms have ok: "room_ok (heap s) room"
    using reachable_wf by (auto simp: wf_def)
  then obtain p ps where "r_participants room = p # ps"
    by (cases "r_participants room") (auto simp: room_ok_def)
  with ok show ?thesis by (auto simp: room_ok_def host_name_def)
qed

theorem host_is_first_participant_witness:
  "reachable joined \<and>
   (\<exists>room p ps. rooms joined room_a = Some room \<and> r_participants room = p # ps \<and>
      u_id (heap joined ! p) = r_host_id room \<and> u_role (heap joined ! p) = ''host'' \<and>
      host_name joined room = u_name (heap joined ! p))"
proof -
  obtain room where r: "rooms joined room_a = Some room"
    by (simp add: run_defs)
  show ?thesis
    using reachable_joined r host_is_first_participant [OF reachable_joined r] by blast
qed

end
